theory Spec2Isabelle
  imports Complex_Main "HOL-Library.Log_Nat"
begin

section \<open>JavaScript values\<close>

text \<open>
  A JavaScript Number is an IEEE 754 double: a rational (every finite double is one),
  one of the two infinities, or NaN. The operators \<open>+\<close>, \<open>*\<close> and \<open>/\<close> deliver the
  double nearest to the exact result, a tie going to the even significand
  (\<open>round_double\<close>, below). The sign of zero is not modelled: \<open>-0\<close> is \<open>Num 0\<close>, and
  a division by zero takes the zero as positive (the divisors of the code are a time
  scale read from unsigned element data, and 1000000).
\<close>

datatype jsnum = Num rat | PosInf | NegInf | NaN

text \<open>
  \<open>ilog2 a\<close> is \<open>\<lfloor>log\<^sub>2 a\<rfloor>\<close> for a positive rational \<open>a\<close>, the exponent of the binade
  that holds \<open>a\<close>: the difference of the bit lengths of numerator and denominator, or
  one less.
\<close>

definition ilog2 :: "rat \<Rightarrow> int" where
  "ilog2 a =
     (case quotient_of a of
        (p, q) \<Rightarrow>
          let e0 = bitlen p - bitlen q
          in if 2 powi e0 \<le> a then e0 else e0 - 1)"

text \<open>The integer nearest to a rational, a tie going to the even neighbour.\<close>

definition round_half_even :: "rat \<Rightarrow> int" where
  "round_half_even q =
     (let f = \<lfloor>q\<rfloor>; d = q - of_int f
      in if d < 1 / 2 then f else if 1 / 2 < d then f + 1 else if even f then f else f + 1)"

text \<open>
  The double nearest to a rational (binary64: 53 significant bits, least normal exponent
  -1022). The spacing of the doubles around \<open>r\<close> is \<open>2\<^bsup>e - 52\<^esup>\<close>, where \<open>e\<close> is the
  exponent of \<open>\<bar>r\<bar>\<close> and at least -1022 (below \<open>2\<^bsup>-1022\<^esup>\<close> the subnormal doubles are
  spaced by \<open>2\<^bsup>-1074\<^esup>\<close>); a magnitude that rounds to \<open>2\<^bsup>1024\<^esup>\<close> or more is an infinity.
\<close>

definition round_double :: "rat \<Rightarrow> jsnum" where
  "round_double r =
     (if r = 0 then Num 0
      else let a = \<bar>r\<bar>;
               e = max (ilog2 a) (- 1022);
               ulp = 2 powi (e - 52);
               v = of_int (round_half_even (a / ulp)) * ulp
           in if 2 ^ 1024 \<le> v then (if 0 < r then PosInf else NegInf)
              else Num (if 0 < r then v else - v))"

fun js_add :: "jsnum \<Rightarrow> jsnum \<Rightarrow> jsnum" where
  "js_add NaN _ = NaN"
| "js_add _ NaN = NaN"
| "js_add (Num a) (Num b) = round_double (a + b)"
| "js_add PosInf NegInf = NaN"
| "js_add NegInf PosInf = NaN"
| "js_add PosInf _ = PosInf"
| "js_add NegInf _ = NegInf"
| "js_add (Num _) PosInf = PosInf"
| "js_add (Num _) NegInf = NegInf"

fun js_mul :: "jsnum \<Rightarrow> jsnum \<Rightarrow> jsnum" where
  "js_mul NaN _ = NaN"
| "js_mul _ NaN = NaN"
| "js_mul (Num a) (Num b) = round_double (a * b)"
| "js_mul PosInf (Num b) = (if b = 0 then NaN else if 0 < b then PosInf else NegInf)"
| "js_mul NegInf (Num b) = (if b = 0 then NaN else if 0 < b then NegInf else PosInf)"
| "js_mul (Num a) PosInf = (if a = 0 then NaN else if 0 < a then PosInf else NegInf)"
| "js_mul (Num a) NegInf = (if a = 0 then NaN else if 0 < a then NegInf else PosInf)"
| "js_mul PosInf PosInf = PosInf"
| "js_mul PosInf NegInf = NegInf"
| "js_mul NegInf PosInf = NegInf"
| "js_mul NegInf NegInf = PosInf"

text \<open>Division by (positive) zero gives an infinity, or NaN for 0 / 0.\<close>

fun js_div :: "jsnum \<Rightarrow> jsnum \<Rightarrow> jsnum" where
  "js_div NaN _ = NaN"
| "js_div _ NaN = NaN"
| "js_div (Num a) (Num b) =
     (if b \<noteq> 0 then round_double (a / b)
      else if a = 0 then NaN else if 0 < a then PosInf else NegInf)"
| "js_div (Num _) PosInf = Num 0"
| "js_div (Num _) NegInf = Num 0"
| "js_div PosInf (Num b) = (if 0 \<le> b then PosInf else NegInf)"
| "js_div NegInf (Num b) = (if 0 \<le> b then NegInf else PosInf)"
| "js_div PosInf PosInf = NaN"
| "js_div PosInf NegInf = NaN"
| "js_div NegInf PosInf = NaN"
| "js_div NegInf NegInf = NaN"

text \<open>Truthiness of a Number: \<open>0\<close> and \<open>NaN\<close> are falsy.\<close>

fun num_truthy :: "jsnum \<Rightarrow> bool" where
  "num_truthy (Num a) = (a \<noteq> 0)"
| "num_truthy NaN = False"
| "num_truthy _ = True"

type_synonym bytes = "nat list"

text \<open>
  The values an element's \<open>data\<close> property holds: a Number (integer and float
  elements), a string, a byte array (binary elements), or \<open>undefined\<close> when the
  property is read through \<open>?.\<close> from a missing child.
\<close>

datatype jsval = Undefined | Number jsnum | String string | Binary bytes

fun truthy :: "jsval \<Rightarrow> bool" where
  "truthy Undefined = False"
| "truthy (Number n) = num_truthy n"
| "truthy (String s) = (s \<noteq> [])"
| "truthy (Binary _) = True"

text \<open>
  The conversion of a string to a Number (\<open>StringToNumber\<close> of the language
  specification), which \<open>*\<close> and \<open>/\<close> apply to a string operand. A \<open>char\<close> stands for a
  code unit below 256. White space at both ends is dropped; the empty string is 0; the
  prefixes \<open>0x\<close>, \<open>0o\<close> and \<open>0b\<close> introduce unsigned hexadecimal, octal and binary
  digits; anything else is read as a decimal literal: an optional sign, then \<open>Infinity\<close>
  or digits with an optional fraction and an optional exponent. A string of no such
  form is NaN. The value is rounded to the nearest double.
\<close>

definition StrWhiteSpaceChar :: "char \<Rightarrow> bool" where
  "StrWhiteSpaceChar c = (of_char c \<in> set [9, 10, 11, 12, 13, 32, 160 :: nat])"

definition trim :: "string \<Rightarrow> string" where
  "trim s = rev (dropWhile StrWhiteSpaceChar (rev (dropWhile StrWhiteSpaceChar s)))"

definition digit_value :: "char \<Rightarrow> int option" where
  "digit_value c =
     map_of (zip ''0123456789abcdefABCDEF''
               [0, 1, 2, 3, 4, 5, 6, 7, 8, 9, 10, 11, 12, 13, 14, 15, 10, 11, 12, 13, 14, 15]) c"

text \<open>The value of a string of digits of the given radix, \<open>None\<close> when a character is
  no such digit; \<open>Digits\<close> asks for at least one digit.\<close>

fun digits_value :: "int \<Rightarrow> int \<Rightarrow> string \<Rightarrow> int option" where
  "digits_value radix acc [] = Some acc"
| "digits_value radix acc (c # cs) =
     (case digit_value c of
        None \<Rightarrow> None
      | Some d \<Rightarrow> if d < radix then digits_value radix (radix * acc + d) cs else None)"

definition Digits :: "int \<Rightarrow> string \<Rightarrow> int option" where
  "Digits radix s = (if s = [] then None else digits_value radix 0 s)"

definition is_digit :: "char \<Rightarrow> bool" where
  "is_digit c = (c \<in> set ''0123456789'')"

text \<open>The exponent part, \<open>e\<close> or \<open>E\<close> and a signed integer; no exponent part is the
  exponent 0.\<close>

definition SignedInteger :: "string \<Rightarrow> int option" where
  "SignedInteger s =
     (case s of
        [] \<Rightarrow> None
      | c # cs \<Rightarrow>
          if c = CHR ''-'' then map_option uminus (Digits 10 cs)
          else if c = CHR ''+'' then Digits 10 cs
          else Digits 10 s)"

definition ExponentPart :: "string \<Rightarrow> int option" where
  "ExponentPart s =
     (case s of
        [] \<Rightarrow> Some 0
      | c # cs \<Rightarrow> if c = CHR ''e'' \<or> c = CHR ''E'' then SignedInteger cs else None)"

text \<open>Digits, an optional point with optional digits after it, an optional exponent;
  there is a digit before or after the point. The result is the exact value.\<close>

definition StrUnsignedDecimalLiteral :: "string \<Rightarrow> rat option" where
  "StrUnsignedDecimalLiteral s =
     (let ip = takeWhile is_digit s;
          r1 = dropWhile is_digit s;
          dot = (r1 \<noteq> [] \<and> hd r1 = CHR ''.'');
          fp = (if dot then takeWhile is_digit (tl r1) else []);
          r2 = (if dot then dropWhile is_digit (tl r1) else r1)
      in if ip = [] \<and> fp = [] then None
         else (case (digits_value 10 0 (ip @ fp), ExponentPart r2) of
                 (Some n, Some e) \<Rightarrow> Some (of_int n * 10 powi (e - int (length fp)))
               | _ \<Rightarrow> None))"

definition StrDecimalLiteral :: "string \<Rightarrow> jsnum" where
  "StrDecimalLiteral s =
     (let neg = (s \<noteq> [] \<and> hd s = CHR ''-'');
          u = (if s \<noteq> [] \<and> (hd s = CHR ''-'' \<or> hd s = CHR ''+'') then tl s else s)
      in if u = ''Infinity'' then (if neg then NegInf else PosInf)
         else (case StrUnsignedDecimalLiteral u of
                 None \<Rightarrow> NaN
               | Some mv \<Rightarrow> round_double (if neg then - mv else mv)))"

definition NonDecimalIntegerLiteral :: "int \<Rightarrow> string \<Rightarrow> jsnum" where
  "NonDecimalIntegerLiteral radix s =
     (case Digits radix s of None \<Rightarrow> NaN | Some n \<Rightarrow> round_double (of_int n))"

definition StringToNumber :: "string \<Rightarrow> jsnum" where
  "StringToNumber s =
     (let t = trim s
      in if t = [] then Num 0
         else if take 2 t \<in> {''0x'', ''0X''} then NonDecimalIntegerLiteral 16 (drop 2 t)
         else if take 2 t \<in> {''0o'', ''0O''} then NonDecimalIntegerLiteral 8 (drop 2 t)
         else if take 2 t \<in> {''0b'', ''0B''} then NonDecimalIntegerLiteral 2 (drop 2 t)
         else StrDecimalLiteral t)"

text \<open>
  \<open>ToNumber\<close>, applied by \<open>*\<close> and \<open>/\<close>. \<open>undefined\<close> is NaN. A byte array is
  converted through its string form, the bytes in decimal joined by commas: the empty
  string, one number, or a string with a comma, which is NaN.
\<close>

fun ToNumber :: "jsval \<Rightarrow> jsnum" where
  "ToNumber Undefined = NaN"
| "ToNumber (Number n) = n"
| "ToNumber (String s) = StringToNumber s"
| "ToNumber (Binary []) = Num 0"
| "ToNumber (Binary [b]) = Num (of_nat b)"
| "ToNumber (Binary _) = NaN"

section \<open>Decoded elements\<close>

text \<open>
  The identities of \<open>EbmlTagId\<close> that the code names. The enumeration itself belongs
  to the decoder library; its members are kept apart here and every other identity is
  \<open>OtherId\<close> of its code.
\<close>

datatype EbmlTagId =
    Segment | SeekHead | Seek | SeekID | SeekPosition
  | Info | TimecodeScale | Duration
  | Cluster | Timecode | BlockGroup | Block | BlockDuration
  | Tracks | TrackEntry | TrackType | TrackNumber | CodecID | Language | Name
  | CodecPrivate | ContentEncodings | ContentEncoding | ContentCompression
  | Chapters | EditionEntry | EditionFlagDefault | ChapterAtom | ChapterFlagHidden
  | ChapterTimeStart | ChapterTimeEnd | ChapterDisplay | ChapString | ChapLanguage
  | Attachments | FileName | FileMimeType | FileData
  | OtherId nat

text \<open>
  An element as the decoder yields it. \<open>Tag\<close> carries the identity, the data, the
  children (empty for an element that is not a master), and the two position properties
  \<open>absoluteStart\<close> and \<open>tagHeaderLength\<close>. \<open>EbmlBlock\<close> is the decoder's class for
  the element of identity \<open>Block\<close>, with its track number, relative time (\<open>value\<close>)
  and payload. The code reads \<open>Children\<close> only of elements that the format defines as
  masters, so a missing \<open>Children\<close> property is not modelled.
\<close>

datatype ebml =
    Tag EbmlTagId jsval "ebml list" jsnum jsnum
  | EbmlBlock nat int bytes

fun tag_id :: "ebml \<Rightarrow> EbmlTagId" where
  "tag_id (Tag i _ _ _ _) = i"
| "tag_id (EbmlBlock _ _ _) = Block"

fun data :: "ebml \<Rightarrow> jsval" where
  "data (Tag _ d _ _ _) = d"
| "data (EbmlBlock _ _ _) = Undefined"

fun Children :: "ebml \<Rightarrow> ebml list" where
  "Children (Tag _ _ cs _ _) = cs"
| "Children (EbmlBlock _ _ _) = []"

fun absoluteStart :: "ebml \<Rightarrow> jsnum" where
  "absoluteStart (Tag _ _ _ a _) = a"
| "absoluteStart (EbmlBlock _ _ _) = NaN"

fun tagHeaderLength :: "ebml \<Rightarrow> jsnum" where
  "tagHeaderLength (Tag _ _ _ _ h) = h"
| "tagHeaderLength (EbmlBlock _ _ _) = NaN"

text \<open>\<open>getChild\<close>: the first child of the given identity (\<open>Array.prototype.find\<close>).\<close>

definition getChild :: "ebml \<Rightarrow> EbmlTagId \<Rightarrow> ebml option" where
  "getChild chunk tag = find (\<lambda>c. tag_id c = tag) (Children chunk)"

text \<open>\<open>getData\<close>: \<open>getChild(chunk, tag)?.data\<close>; \<open>getData'\<close> is the same on an
  optional chunk (\<open>chunk?.Children\<close>).\<close>

definition getData :: "ebml \<Rightarrow> EbmlTagId \<Rightarrow> jsval" where
  "getData chunk tag = (case getChild chunk tag of None \<Rightarrow> Undefined | Some c \<Rightarrow> data c)"

definition getData' :: "ebml option \<Rightarrow> EbmlTagId \<Rightarrow> jsval" where
  "getData' chunk tag = (case chunk of None \<Rightarrow> Undefined | Some c \<Rightarrow> getData c tag)"

section \<open>Block extractor\<close>

text \<open>A registered subtitle track (the object stored in \<open>subtitleTracks\<close>).\<close>

record track =
  number :: jsval
  language :: jsval
  type :: string
  name :: jsval
  header :: "string option"
  compressed :: bool

definition SSA_TYPES :: "string set" where
  "SSA_TYPES = {''ssa'', ''ass''}"

definition SSA_KEYS :: "string list" where
  "SSA_KEYS = [''readOrder'', ''layer'', ''style'', ''name'', ''marginL'', ''marginR'',
               ''marginV'', ''effect'', ''text'']"

text \<open>\<open>String.prototype.split(',')\<close>: never empty; the empty string gives one empty field.\<close>

fun split_comma :: "string \<Rightarrow> string list" where
  "split_comma [] = [[]]"
| "split_comma (c # cs) =
     (if c = CHR '','' then [] # split_comma cs
      else (case split_comma cs of f # fs \<Rightarrow> (c # f) # fs | [] \<Rightarrow> [[c]]))"

text \<open>\<open>Array.prototype.join(',')\<close>.\<close>

fun join_comma :: "string list \<Rightarrow> string" where
  "join_comma [] = []"
| "join_comma [f] = f"
| "join_comma (f # fs) = f @ CHR '','' # join_comma fs"

text \<open>\<open>values[i]\<close>: \<open>undefined\<close> past the end of the array.\<close>

definition at_index :: "string list \<Rightarrow> nat \<Rightarrow> jsval" where
  "at_index values i = (if i < length values then String (values ! i) else Undefined)"

text \<open>
  The emitted event: text (here \<open>text'\<close>), time and duration, and the properties the loop over
  \<open>SSA_KEYS\<close> assigns, in assignment order (a key the loop never assigns is absent).
\<close>

record subtitle =
  text' :: string
  time :: jsnum
  duration :: jsnum
  keys :: "(string \<times> jsval) list"

datatype error = InflateError | TypeError | SeekHeadNotFound | TagIdRequired

text \<open>
  \<open>handleBlockGroup\<close>. The byte-to-text decoder \<open>arr2text\<close>, \<open>inflateSync\<close> (which
  throws on malformed input: \<open>None\<close>) and the resolved track map are arguments.
  \<open>currentClusterTimecode\<close> is \<open>null\<close> (here \<open>None\<close>, which \<open>+\<close> reads as 0) until a
  cluster timecode has been decoded, and a Number after that (a timecode that the
  decoder delivers as a string, which \<open>+\<close> would concatenate, is not modelled).
  \<open>timecodeScale\<close> is the Number \<open>tag.data / 1000000\<close>, or 1. The child of
  identity \<open>Block\<close> is an \<open>EbmlBlock\<close>; a block on a track that is not registered is
  dropped. The result is the emitted event with its track number, \<open>None\<close> when
  nothing is emitted, or the exception.
\<close>

definition handleBlockGroup ::
  "(bytes \<Rightarrow> string) \<Rightarrow> (bytes \<Rightarrow> bytes option) \<Rightarrow> (jsval \<rightharpoonup> track) \<Rightarrow>
   ebml \<Rightarrow> jsnum \<Rightarrow> jsnum option \<Rightarrow> error + (subtitle \<times> nat) option" where
  "handleBlockGroup arr2text inflateSync subtitleTracks chunk timecodeScale currentClusterTimecode =
    (case getChild chunk Block of
       Some (EbmlBlock btrack bvalue bpayload) \<Rightarrow>
         (case subtitleTracks (Number (Num (of_nat btrack))) of
            None \<Rightarrow> Inr None
          | Some trk \<Rightarrow>
              let blockDuration = getData chunk BlockDuration in
              (case (if compressed trk then inflateSync bpayload else Some bpayload) of
                 None \<Rightarrow> Inl InflateError
               | Some payload \<Rightarrow>
                   let subtitle0 = \<lparr>
                         text' = arr2text payload,
                         time = js_mul (js_add (Num (of_int bvalue))
                                   (case currentClusterTimecode of None \<Rightarrow> Num 0 | Some c \<Rightarrow> c))
                                 timecodeScale,
                         duration = js_mul (ToNumber blockDuration) timecodeScale,
                         keys = [] \<rparr>;
                       subtitle1 =
                         (if type trk \<in> SSA_TYPES then
                            let values = split_comma (text' subtitle0) in
                            subtitle0 \<lparr>
                              keys := map (\<lambda>i. (SSA_KEYS ! i, at_index values i))
                                          [(if type trk = ''ssa'' then 2 else 1) ..< 8],
                              text' := join_comma (drop 8 values) \<rparr>
                          else subtitle0)
                   in Inr (Some (subtitle1, btrack))))
     | _ \<Rightarrow> Inr None)"

subsection \<open>A block group on track 3, for the examples\<close>

definition example_blockgroup :: ebml where
  "example_blockgroup =
     Tag BlockGroup Undefined
       [EbmlBlock 3 50 [72, 105], Tag BlockDuration (Number (Num 40)) [] (Num 0) (Num 0)] (Num 0) (Num 0)"

text \<open>A second one: relative time 3 and duration 7.\<close>

definition example_short_blockgroup :: ebml where
  "example_short_blockgroup =
     Tag BlockGroup Undefined
       [EbmlBlock 3 3 [72, 105], Tag BlockDuration (Number (Num 7)) [] (Num 0) (Num 0)] (Num 0) (Num 0)"

definition example_track :: "string \<Rightarrow> track" where
  "example_track ty = \<lparr> number = Number (Num 3), language = String ''eng'', type = ty,
     name = Undefined, header = None, compressed = False \<rparr>"

definition example_tracks :: "string \<Rightarrow> (jsval \<rightharpoonup> track)" where
  "example_tracks ty = [Number (Num 3) \<mapsto> example_track ty]"

definition example_ssa_blockgroup :: ebml where
  "example_ssa_blockgroup =
     Tag BlockGroup Undefined
       [EbmlBlock 3 50 (map of_char ''0,1,Default,,0,0,0,,Hello, world'')] (Num 0) (Num 0)"

section \<open>Stream synchronizer\<close>

text \<open>\<open>chunk[j]\<close> on a \<open>Uint8Array\<close>: \<open>undefined\<close> (here \<open>None\<close>) outside the array.\<close>

definition byte_at :: "bytes \<Rightarrow> int \<Rightarrow> nat option" where
  "byte_at chunk j = (if 0 \<le> j \<and> j < int (length chunk) then Some (chunk ! nat j) else None)"

text \<open>The test for the four bytes of \<open>EbmlTagId.Cluster\<close>, \<open>0x1F43B675\<close>, at \<open>i\<close>.\<close>

definition is_cluster_marker :: "bytes \<Rightarrow> nat \<Rightarrow> bool" where
  "is_cluster_marker chunk i =
     (byte_at chunk (int i) = Some 0x1f \<and> byte_at chunk (int i + 1) = Some 0x43 \<and>
      byte_at chunk (int i + 2) = Some 0xb6 \<and> byte_at chunk (int i + 3) = Some 0x75)"

text \<open>
  \<open>len = 8 - Math.floor(Math.log2(chunk[i + 4]))\<close>, the length of the cluster's size
  field. \<open>floorlog 2 n\<close> is \<open>\<lfloor>log 2 n\<rfloor> + 1\<close> for positive \<open>n\<close>. For the byte 0 the
  logarithm is \<open>-Infinity\<close> and \<open>len\<close> is \<open>Infinity\<close>, for \<open>undefined\<close> it is NaN:
  neither is an index of the array, and both are \<open>None\<close> here.
\<close>

definition size_tag_length :: "nat option \<Rightarrow> int option" where
  "size_tag_length b =
     (case b of
        None \<Rightarrow> None
      | Some n \<Rightarrow> if n = 0 then None else Some (8 - (int (floorlog 2 n) - 1)))"

text \<open>\<open>chunk[i + 4 + len]\<close>: the first byte after the size field.\<close>

definition first_tag_byte :: "bytes \<Rightarrow> nat \<Rightarrow> nat option" where
  "first_tag_byte chunk i =
     (case size_tag_length (byte_at chunk (int i + 4)) of
        None \<Rightarrow> None
      | Some len \<Rightarrow> byte_at chunk (int i + 4 + len))"

text \<open>
  \<open>EbmlTagId[b]\<close> as a condition. The reverse mapping of the decoder library's
  enumeration, from an identity code to the member's name, is the argument \<open>tagName\<close>;
  a code that is no member, and \<open>undefined\<close>, give \<open>undefined\<close>, which is falsy.
\<close>

definition is_valid_tag :: "(nat \<Rightarrow> string option) \<Rightarrow> nat option \<Rightarrow> bool" where
  "is_valid_tag tagName b =
     (case b of
        None \<Rightarrow> False
      | Some n \<Rightarrow> (case tagName n of None \<Rightarrow> False | Some s \<Rightarrow> s \<noteq> []))"

text \<open>
  The scan of one chunk in the unstable state, from index \<open>i\<close>: the loop
  \<open>for (let i = 0; i < chunk.length - 12; i++)\<close>. It does not stop at a match. The
  result is the flag \<open>stable\<close> (here \<open>stable0\<close>) and the slices \<open>chunk.slice(i)\<close> handed to the
  decoder's \<open>parseTags\<close>, in order.
\<close>

function scan_loop ::
  "(nat \<Rightarrow> string option) \<Rightarrow> bytes \<Rightarrow> nat \<Rightarrow> bool \<Rightarrow> bytes list \<Rightarrow> bool \<times> bytes list" where
  "scan_loop tagName chunk i stable0 parsed =
     (if int i < int (length chunk) - 12 then
        (if is_cluster_marker chunk i then
           (if is_valid_tag tagName (first_tag_byte chunk i)
            then scan_loop tagName chunk (Suc i) True (parsed @ [drop i chunk])
            else scan_loop tagName chunk (Suc i) stable0 parsed)
         else scan_loop tagName chunk (Suc i) stable0 parsed)
      else (stable0, parsed))"
  by pat_completeness auto
termination
  by (relation "measure (\<lambda>(tagName, chunk, i, stable0, parsed). length chunk - i)") auto

declare scan_loop.simps [simp del]

text \<open>The body of \<open>for await (const chunk of stream)\<close> for one chunk.\<close>

definition parseStream_chunk ::
  "(nat \<Rightarrow> string option) \<Rightarrow> bool \<Rightarrow> bytes \<Rightarrow> bool \<times> bytes list" where
  "parseStream_chunk tagName stable0 chunk =
     (if \<not> stable0 then scan_loop tagName chunk 0 stable0 [] else (stable0, [chunk]))"

text \<open>
  \<open>parseStream\<close> over the chunks of a stream, for a session that is not destroyed
  while it runs: the final flag and, for each chunk, the slices handed to the decoder.
  The argument \<open>stable\<close> is the value of \<open>this.stable\<close> at the call (\<open>parseFile\<close> sets
  it, any other caller finds it false).
\<close>

fun parseStream ::
  "(nat \<Rightarrow> string option) \<Rightarrow> bool \<Rightarrow> bytes list \<Rightarrow> bool \<times> bytes list list" where
  "parseStream tagName stable0 [] = (stable0, [])"
| "parseStream tagName stable0 (chunk # rest) =
     (case parseStream_chunk tagName stable0 chunk of
        (stable1, parsed) \<Rightarrow>
          (case parseStream tagName stable1 rest of
             (stable2, later) \<Rightarrow> (stable2, parsed # later)))"

subsection \<open>Chunks for the examples\<close>

text \<open>The identity \<open>0xE7\<close> (Timecode) is the only member of this small enumeration.\<close>

definition example_tagName :: "nat \<Rightarrow> string option" where
  "example_tagName n = (if n = 0xE7 then Some ''Timecode'' else None)"

text \<open>Sixteen bytes with a cluster header at index 4, that is at \<open>length - 12\<close>.\<close>

definition example_late_chunk :: bytes where
  "example_late_chunk =
     [0, 0, 0, 0, 0x1f, 0x43, 0xb6, 0x75, 0x81, 0xE7, 0x81, 0, 0, 0, 0, 0]"

text \<open>The same header one byte earlier relative to the end (seventeen bytes).\<close>

definition example_cluster_chunk :: bytes where
  "example_cluster_chunk =
     [0, 0, 0, 0, 0x1f, 0x43, 0xb6, 0x75, 0x81, 0xE7, 0x81, 0, 0, 0, 0, 0, 0]"

text \<open>The marker inside a payload, followed by a byte that is no identity code.\<close>

definition example_payload_chunk :: bytes where
  "example_payload_chunk =
     [0x41, 0x42, 0x1f, 0x43, 0xb6, 0x75, 0x81, 0x20, 0x48, 0x65, 0x6c, 0x6c, 0x6f, 0x21,
      0x21, 0x21, 0x21, 0x21, 0x21, 0x21]"

section \<open>Chapter resolver\<close>

text \<open>\<open>a || b\<close> on values.\<close>

definition or_else :: "jsval \<Rightarrow> jsval \<Rightarrow> jsval" where
  "or_else a b = (if truthy a then a else b)"

text \<open>An entry of the list \<open>getChapters\<close> returns.\<close>

record chapter_item =
  start :: jsnum
  end' :: jsval
  text'' :: jsval
  language' :: jsval

text \<open>\<open>getData(atom, EbmlTagId.ChapterTimeStart) / timecodeScale / 1000000\<close>, and the
  same quotient of \<open>ChapterTimeEnd\<close>; NaN when the atom has no such child.\<close>

definition chapter_start :: "jsnum \<Rightarrow> ebml \<Rightarrow> jsnum" where
  "chapter_start timecodeScale atom =
     js_div (js_div (ToNumber (getData atom ChapterTimeStart)) timecodeScale) (Num 1000000)"

definition chapter_end :: "jsnum \<Rightarrow> ebml \<Rightarrow> jsnum" where
  "chapter_end timecodeScale atom =
     js_div (js_div (ToNumber (getData atom ChapterTimeEnd)) timecodeScale) (Num 1000000)"

text \<open>
  The loop \<open>for (let i = atoms.length - 1; i >= 0; --i)\<close>. The second argument is
  \<open>i + 1\<close>; \<open>chapters\<close> holds the entries written so far, those of the indices above
  \<open>i\<close>, so that \<open>chapters[i + 1]\<close> is its head, and \<open>undefined\<close> in the first round.
  \<open>await this.duration\<close> is reached only when the operands before it are falsy; the
  promise may be rejected (\<open>Inl\<close>).
\<close>

fun chapters_loop ::
  "ebml list \<Rightarrow> nat \<Rightarrow> jsnum \<Rightarrow> error + jsval \<Rightarrow> chapter_item list \<Rightarrow> error + chapter_item list" where
  "chapters_loop atoms 0 timecodeScale dur chapters = Inr chapters"
| "chapters_loop atoms (Suc i) timecodeScale dur chapters =
     (let start0 = chapter_start timecodeScale (atoms ! i);
          end1 = or_else (Number (chapter_end timecodeScale (atoms ! i)))
                   (case chapters of [] \<Rightarrow> Undefined | c # _ \<Rightarrow> Number (start c));
          disp = getChild (atoms ! i) ChapterDisplay
      in case (if truthy end1 then Inr end1
               else (case dur of
                       Inl e \<Rightarrow> Inl e
                     | Inr d \<Rightarrow> Inr (or_else d (Number (Num 0))))) of
           Inl e \<Rightarrow> Inl e
         | Inr end0 \<Rightarrow>
             chapters_loop atoms i timecodeScale dur
               (\<lparr> start = start0, end' = end0,
                  text'' = getData' disp ChapString,
                  language' = getData' disp ChapLanguage \<rparr> # chapters))"

text \<open>The default edition: the first edition with a truthy \<open>EditionFlagDefault\<close> child,
  or else the first edition; \<open>undefined\<close> when there is no edition.\<close>

definition defaultEdition :: "ebml \<Rightarrow> ebml option" where
  "defaultEdition Chapters0 =
     (let editions = filter (\<lambda>c. tag_id c = EditionEntry) (Children Chapters0)
      in case find (\<lambda>c. list_ex (\<lambda>cc. tag_id cc = EditionFlagDefault \<and> truthy (data cc))
                          (Children c)) editions of
           Some e \<Rightarrow> Some e
         | None \<Rightarrow> (case editions of [] \<Rightarrow> None | e # _ \<Rightarrow> Some e))"

text \<open>The atoms of an edition that are not flagged hidden.\<close>

definition visible_atoms :: "ebml \<Rightarrow> ebml list" where
  "visible_atoms edition =
     filter (\<lambda>c. tag_id c = ChapterAtom \<and> \<not> truthy (getData c ChapterFlagHidden))
       (Children edition)"

text \<open>
  \<open>getChapters\<close> from the point where the element \<open>Chapters\<close> (or \<open>null\<close>), the time
  scale and the duration promise are at hand. With children but no edition,
  \<open>defaultEdition.Children\<close> throws a \<open>TypeError\<close>.
\<close>

definition resolveChapters ::
  "ebml option \<Rightarrow> jsnum \<Rightarrow> error + jsval \<Rightarrow> error + chapter_item list" where
  "resolveChapters Chapters0 timecodeScale dur =
     (case Chapters0 of
        None \<Rightarrow> Inr []
      | Some ch \<Rightarrow>
          if Children ch = [] then Inr []
          else (case defaultEdition ch of
                  None \<Rightarrow> Inl TypeError
                | Some edition \<Rightarrow>
                    let atoms = visible_atoms edition
                    in chapters_loop atoms (length atoms) timecodeScale dur []))"

text \<open>The same entries by recursion over the atoms from the front: each entry takes
  the start of the entry after it.\<close>

definition chapter_entry :: "jsnum \<Rightarrow> jsval \<Rightarrow> ebml \<Rightarrow> jsval \<Rightarrow> chapter_item" where
  "chapter_entry timecodeScale d atom next_start =
     \<lparr> start = chapter_start timecodeScale atom,
       end' = or_else (or_else (or_else (Number (chapter_end timecodeScale atom)) next_start) d)
                (Number (Num 0)),
       text'' = getData' (getChild atom ChapterDisplay) ChapString,
       language' = getData' (getChild atom ChapterDisplay) ChapLanguage \<rparr>"

fun chapters_of_atoms :: "jsnum \<Rightarrow> jsval \<Rightarrow> ebml list \<Rightarrow> chapter_item list" where
  "chapters_of_atoms timecodeScale d [] = []"
| "chapters_of_atoms timecodeScale d (a # as) =
     chapter_entry timecodeScale d a
       (case chapters_of_atoms timecodeScale d as of
          [] \<Rightarrow> Undefined | c # _ \<Rightarrow> Number (start c))
     # chapters_of_atoms timecodeScale d as"

text \<open>JavaScript's \<open><=\<close> on numbers (false when an operand is NaN), and a list of
  numbers in ascending order, as the specification asks of the chapter starts.\<close>

fun js_le :: "jsnum \<Rightarrow> jsnum \<Rightarrow> bool" where
  "js_le NaN _ = False"
| "js_le _ NaN = False"
| "js_le (Num a) (Num b) = (a \<le> b)"
| "js_le NegInf _ = True"
| "js_le _ PosInf = True"
| "js_le PosInf _ = False"
| "js_le _ NegInf = False"

definition spec_ascending :: "jsnum list \<Rightarrow> bool" where
  "spec_ascending xs = sorted_wrt js_le xs"

subsection \<open>Chapter elements for the examples\<close>

definition leaf :: "EbmlTagId \<Rightarrow> jsval \<Rightarrow> ebml" where
  "leaf i d = Tag i d [] (Num 0) (Num 0)"

definition master :: "EbmlTagId \<Rightarrow> ebml list \<Rightarrow> ebml" where
  "master i cs = Tag i Undefined cs (Num 0) (Num 0)"

text \<open>An atom that starts at the given number of milliseconds and declares no end.\<close>

definition atom_at :: "nat \<Rightarrow> ebml" where
  "atom_at ms = master ChapterAtom [leaf ChapterTimeStart (Number (Num (of_nat (ms * 1000000))))]"

definition example_chapters :: "nat list \<Rightarrow> ebml" where
  "example_chapters starts = master Chapters [master EditionEntry (map atom_at starts)]"

section \<open>Container navigator and session\<close>

text \<open>
  The argument of \<open>getFileStream\<close> at its five call sites: none (\<open>undefined\<close>), or
  the value of \<open>transformedHead.SeekHead + segmentStart\<close>. \<open>transformedHead.SeekHead\<close>
  is the \<open>SeekPosition\<close> element of the entry, not its \<open>data\<close>, so the sum is that
  of an element object and a number: JavaScript concatenates the object's string form
  and the number, and the result is not a number.
\<close>

datatype jsstart = NoStart | TagPlusNum ebml jsnum

text \<open>
  The resolved index: a plain object from element names to the \<open>SeekPosition\<close> element
  of the entry; an entry without that child stores \<open>undefined\<close> (\<open>Some None\<close>).
\<close>

type_synonym index = "string \<rightharpoonup> ebml option"

text \<open>A settled promise: rejected with an error or fulfilled with a value.\<close>

type_synonym 'a promise = "error + 'a"

text \<open>
  The session object. \<open>file'\<close> is the file-like object together with the decoder: the
  elements decoded from the stream that the file opens for a start argument, in stream
  order, the element that is sought complete with its children and as \<open>processTags\<close>
  leaves it (string elements hold strings). \<open>opened\<close> is not a field of the source: it
  logs the start argument of every stream opened, oldest first, as a counting fake
  source would. The four promise fields are \<open>None\<close> until the constructor has assigned
  them.
\<close>

record session =
  file' :: "jsstart \<Rightarrow> ebml list"
  opened :: "jsstart list"
  destroyed :: bool
  segmentStart :: jsnum
  tagCache :: "string \<rightharpoonup> ebml"
  timecodeScale :: jsnum
  subtitleTracks :: "(jsval \<times> track) list"
  segment :: "ebml option promise option"
  seekHead :: "index option promise option"
  duration' :: "jsval promise option"
  tracks :: "track list promise option"

definition getFileStream :: "session \<Rightarrow> jsstart \<Rightarrow> ebml list \<times> session" where
  "getFileStream s st = (file' s st, s\<lparr>opened := opened s @ [st]\<rparr>)"

text \<open>\<open>readUntilTag\<close>: the first element of the identity, \<open>null\<close> when the stream ends
  before one is found; an \<open>undefined\<close> identity is an error.\<close>

definition readUntilTag :: "ebml list \<Rightarrow> EbmlTagId option \<Rightarrow> error + ebml option" where
  "readUntilTag stream tagId =
     (case tagId of
        None \<Rightarrow> Inl TagIdRequired
      | Some t \<Rightarrow> Inr (find (\<lambda>tag. tag_id tag = t) stream))"

text \<open>The library's \<open>Tools.readUnsigned\<close> on the bytes of a binary element: their
  big-endian value. \<open>SeekID\<close> is a binary element; on a value that is no byte array
  the call throws.\<close>

definition readUnsigned :: "jsval \<Rightarrow> error + nat" where
  "readUnsigned d =
     (case d of
        Binary bs \<Rightarrow> Inr (foldl (\<lambda>acc b. 256 * acc + b) 0 bs)
      | _ \<Rightarrow> Inl TypeError)"

text \<open>
  The loop over \<open>seekHead.Children\<close> that fills \<open>transformedHead\<close>. \<open>tagName\<close> is the
  reverse mapping of the enumeration; a code that is no member gives the property name
  \<open>undefined\<close>. A \<open>Seek\<close> entry without a \<open>SeekID\<close> child throws.
\<close>

fun transformHead :: "(nat \<Rightarrow> string option) \<Rightarrow> ebml list \<Rightarrow> index \<Rightarrow> error + index" where
  "transformHead tagName [] transformedHead = Inr transformedHead"
| "transformHead tagName (child # rest) transformedHead =
     (if tag_id child \<noteq> Seek then transformHead tagName rest transformedHead
      else (case getChild child SeekID of
              None \<Rightarrow> Inl TypeError
            | Some sid \<Rightarrow>
                (case readUnsigned (data sid) of
                   Inl e \<Rightarrow> Inl e
                 | Inr n \<Rightarrow>
                     transformHead tagName rest
                       (transformedHead
                          ((case tagName n of None \<Rightarrow> ''undefined'' | Some nm \<Rightarrow> nm)
                             \<mapsto> getChild child SeekPosition)))))"

text \<open>
  \<open>readSeekHead\<close>. The first argument bounds the depth of the recursion; the result is
  \<open>None\<close> when that depth does not suffice. \<open>null\<close> is returned on a destroyed session.
  The spread \<open>{ ...secondSeekHead, ...transformedHead }\<close> lets the entries of
  \<open>transformedHead\<close> win.
\<close>

fun readSeekHead ::
  "nat \<Rightarrow> (nat \<Rightarrow> string option) \<Rightarrow> session \<Rightarrow> ebml list \<Rightarrow> jsnum
   \<Rightarrow> index option promise option \<times> session" where
  "readSeekHead 0 tagName s seekHeadStream segStart = (None, s)"
| "readSeekHead (Suc fuel) tagName s seekHeadStream segStart =
     (case readUntilTag seekHeadStream (Some SeekHead) of
        Inl e \<Rightarrow> (Some (Inl e), s)
      | Inr found \<Rightarrow>
          if destroyed s then (Some (Inr None), s)
          else (case found of
                  None \<Rightarrow> (Some (Inl SeekHeadNotFound), s)
                | Some seekHead0 \<Rightarrow>
                    (case transformHead tagName (Children seekHead0) Map.empty of
                       Inl e \<Rightarrow> (Some (Inl e), s)
                     | Inr transformedHead \<Rightarrow>
                         (case transformedHead ''SeekHead'' of
                            Some (Some pos) \<Rightarrow>
                              (case getFileStream s (TagPlusNum pos segStart) of
                                 (stream2, s2) \<Rightarrow>
                                   (case readSeekHead fuel tagName s2 stream2 segStart of
                                      (None, s3) \<Rightarrow> (None, s3)
                                    | (Some (Inl e), s3) \<Rightarrow> (Some (Inl e), s3)
                                    | (Some (Inr secondSeekHead), s3) \<Rightarrow>
                                        (Some (Inr (Some
                                           ((case secondSeekHead of
                                               None \<Rightarrow> Map.empty | Some m \<Rightarrow> m)
                                            ++ transformedHead))), s3)))
                          | _ \<Rightarrow> (Some (Inr (Some transformedHead)), s)))))"

text \<open>\<open>getSegment\<close>: no segment element gives \<open>undefined\<close> and leaves \<open>segmentStart\<close>.\<close>

definition getSegment :: "session \<Rightarrow> ebml option promise \<times> session" where
  "getSegment s =
     (case segment s of
        Some p \<Rightarrow> (p, s)
      | None \<Rightarrow>
          (case getFileStream s NoStart of
             (stream, s1) \<Rightarrow>
               (case readUntilTag stream (Some Segment) of
                  Inl e \<Rightarrow> (Inl e, s1)
                | Inr None \<Rightarrow> (Inr None, s1)
                | Inr (Some seg) \<Rightarrow>
                    (Inr (Some seg),
                     s1\<lparr>segmentStart := js_add (absoluteStart seg) (tagHeaderLength seg)\<rparr>))))"

text \<open>\<open>getSeekHead\<close>: awaits \<open>this.segment\<close>, then reads the index from the start of
  the file with \<open>segmentStart\<close> 0.\<close>

definition getSeekHead ::
  "nat \<Rightarrow> (nat \<Rightarrow> string option) \<Rightarrow> session \<Rightarrow> index option promise option \<times> session" where
  "getSeekHead fuel tagName s =
     (case seekHead s of
        Some p \<Rightarrow> (Some p, s)
      | None \<Rightarrow>
          (case segment s of
             Some (Inl e) \<Rightarrow> (Some (Inl e), s)
           | _ \<Rightarrow>
               (case getFileStream s NoStart of
                  (stream, s1) \<Rightarrow> readSeekHead fuel tagName s1 stream (Num 0))))"

text \<open>\<open>String.prototype.toLowerCase\<close> on the letters A to Z.\<close>

definition lower_char :: "char \<Rightarrow> char" where
  "lower_char c =
     (case map_of (zip ''ABCDEFGHIJKLMNOPQRSTUVWXYZ'' ''abcdefghijklmnopqrstuvwxyz'') c of
        None \<Rightarrow> c
      | Some l \<Rightarrow> l)"

definition toLowerCase :: "string \<Rightarrow> string" where
  "toLowerCase s = map lower_char s"

text \<open>\<open>EbmlTagId[tag]\<close> for a name: the members of the enumeration that the code names.
  \<open>readSeekHeadTag\<close> is called with \<open>Attachments\<close>, \<open>Tracks\<close>, \<open>Chapters\<close> and
  \<open>Info\<close> only.\<close>

definition EbmlTagId_of :: "string \<Rightarrow> EbmlTagId option" where
  "EbmlTagId_of nm =
     map_of [(''Attachments'', Attachments), (''Tracks'', Tracks), (''Chapters'', Chapters),
             (''Info'', Info), (''Segment'', Segment), (''SeekHead'', SeekHead),
             (''Cluster'', Cluster)] nm"

text \<open>\<open>child.absoluteStart = ...\<close>.\<close>

fun set_absoluteStart :: "ebml \<Rightarrow> jsnum \<Rightarrow> ebml" where
  "set_absoluteStart (Tag i d cs _ h) a = Tag i d cs a h"
| "set_absoluteStart (EbmlBlock t v p) a = EbmlBlock t v p"

text \<open>
  \<open>readSeekHeadTag\<close>. A rejected index rejects the call; \<open>null\<close> as the index (a
  destroyed session) throws on \<open>seekHead[tag]\<close>. The stream is opened without a start
  argument. \<open>null\<close> and \<open>undefined\<close> results are both \<open>None\<close>. The position
  that \<open>+\<close> adds to \<open>segmentStart\<close> is a Number, or 0 for falsy data; position
  data of another type, with which \<open>+\<close> would concatenate strings, is read as a number
  here, \<open>absoluteStart\<close> being a Number in this model.
\<close>

definition readSeekHeadTag :: "session \<Rightarrow> string \<Rightarrow> ebml option promise \<times> session" where
  "readSeekHeadTag s tag =
     (case seekHead s of
        None \<Rightarrow> (Inl TypeError, s)
      | Some (Inl e) \<Rightarrow> (Inl e, s)
      | Some (Inr None) \<Rightarrow> (Inl TypeError, s)
      | Some (Inr (Some idx)) \<Rightarrow>
          let storedTag = toLowerCase tag in
          (case (tagCache s storedTag, idx tag) of
             (None, Some (Some entry)) \<Rightarrow>
               (case getFileStream s NoStart of
                  (stream, s1) \<Rightarrow>
                    (case readUntilTag stream (EbmlTagId_of tag) of
                       Inl e \<Rightarrow> (Inl e, s1)
                     | Inr None \<Rightarrow> (Inr None, s1)
                     | Inr (Some child) \<Rightarrow>
                         let child1 = set_absoluteStart child
                               (js_add (segmentStart s1)
                                  (ToNumber (or_else (data entry) (Number (Num 0)))))
                         in (Inr (Some child1),
                             s1\<lparr>tagCache := (tagCache s1)(storedTag \<mapsto> child1)\<rparr>)))
           | _ \<Rightarrow> (Inr (tagCache s storedTag), s)))"

subsection \<open>Track registry\<close>

text \<open>\<open>Map.prototype.set\<close> on the insertion-ordered map \<open>subtitleTracks\<close>.\<close>

fun map_set :: "'k \<Rightarrow> 'v \<Rightarrow> ('k \<times> 'v) list \<Rightarrow> ('k \<times> 'v) list" where
  "map_set k v [] = [(k, v)]"
| "map_set k v ((k1, v1) # kvs) = (if k1 = k then (k, v) # kvs else (k1, v1) # map_set k v kvs)"

definition startsWith :: "string \<Rightarrow> string \<Rightarrow> bool" where
  "startsWith s p = (take (length p) s = p)"

text \<open>
  The body of the loop over the track entries: \<open>None\<close> when the entry is skipped. A
  truthy \<open>CodecID\<close> that is not a string has no \<open>startsWith\<close>. \<open>CodecPrivate\<close> is a
  binary element; \<open>arr2text\<close>, the byte-to-text decoder, is an argument.
\<close>

definition track_of_entry :: "(bytes \<Rightarrow> string) \<Rightarrow> ebml \<Rightarrow> error + track option" where
  "track_of_entry arr2text entry =
     (if getData entry TrackType \<noteq> Number (Num 0x11) then Inr None
      else (case or_else (getData entry CodecID) (String []) of
              String codecID \<Rightarrow>
                if startsWith codecID ''S_TEXT'' then
                  Inr (Some \<lparr>
                    number = getData entry TrackNumber,
                    language = getData entry Language,
                    type = toLowerCase (drop 7 codecID),
                    name = (if truthy (getData entry Name) then getData entry Name else Undefined),
                    header = (case getData entry CodecPrivate of
                                Binary bs \<Rightarrow> Some (arr2text bs) | _ \<Rightarrow> None),
                    compressed =
                      list_ex (\<lambda>c. tag_id c = ContentEncodings \<and>
                                 list_ex (\<lambda>cc. tag_id cc = ContentEncoding \<and>
                                            getChild cc ContentCompression \<noteq> None)
                                   (Children c))
                        (Children entry) \<rparr>)
                else Inr None
            | _ \<Rightarrow> Inl TypeError))"

text \<open>The loop over the entries: the exception that ends it, if any, and the
  registry as the loop leaves it.\<close>

fun tracks_loop ::
  "(bytes \<Rightarrow> string) \<Rightarrow> ebml list \<Rightarrow> (jsval \<times> track) list
   \<Rightarrow> error option \<times> (jsval \<times> track) list" where
  "tracks_loop arr2text [] registry = (None, registry)"
| "tracks_loop arr2text (entry # rest) registry =
     (case track_of_entry arr2text entry of
        Inl e \<Rightarrow> (Some e, registry)
      | Inr None \<Rightarrow> tracks_loop arr2text rest registry
      | Inr (Some t) \<Rightarrow> tracks_loop arr2text rest (map_set (number t) t registry))"

text \<open>\<open>getTracks\<close>: the memo \<open>this.tracks\<close> when the constructor has set it.\<close>

definition getTracks :: "(bytes \<Rightarrow> string) \<Rightarrow> session \<Rightarrow> track list promise \<times> session" where
  "getTracks arr2text s =
     (case tracks s of
        Some p \<Rightarrow> (p, s)
      | None \<Rightarrow>
          (case readSeekHeadTag s ''Tracks'' of
             (Inl e, s1) \<Rightarrow> (Inl e, s1)
           | (Inr None, s1) \<Rightarrow> (Inr [], s1)
           | (Inr (Some Tracks0), s1) \<Rightarrow>
               if Children Tracks0 = [] then (Inr [], s1)
               else (case tracks_loop arr2text
                            (filter (\<lambda>c. tag_id c = TrackEntry) (Children Tracks0))
                            (subtitleTracks s1) of
                       (Some e, registry) \<Rightarrow> (Inl e, s1\<lparr>subtitleTracks := registry\<rparr>)
                     | (None, registry) \<Rightarrow>
                         (Inr (map snd registry), s1\<lparr>subtitleTracks := registry\<rparr>))))"

text \<open>\<open>getDuration\<close>: the memo \<open>this.duration\<close> when the constructor has set it.\<close>

definition getDuration :: "session \<Rightarrow> jsval promise \<times> session" where
  "getDuration s =
     (case duration' s of
        Some p \<Rightarrow> (p, s)
      | None \<Rightarrow>
          (case readSeekHeadTag s ''Info'' of
             (Inl e, s1) \<Rightarrow> (Inl e, s1)
           | (Inr None, s1) \<Rightarrow> (Inr Undefined, s1)
           | (Inr (Some Info0), s1) \<Rightarrow>
               if Children Info0 = [] then (Inr Undefined, s1)
               else (Inr (getData Info0 Duration), s1)))"

record attachment =
  filename :: jsval
  mimetype :: jsval
  data' :: jsval

definition getAttachments :: "session \<Rightarrow> attachment list promise \<times> session" where
  "getAttachments s =
     (case readSeekHeadTag s ''Attachments'' of
        (Inl e, s1) \<Rightarrow> (Inl e, s1)
      | (Inr None, s1) \<Rightarrow> (Inr [], s1)
      | (Inr (Some a), s1) \<Rightarrow>
          (Inr (map (\<lambda>chunk. \<lparr> filename = getData chunk FileName,
                               mimetype = getData chunk FileMimeType,
                               data' = getData chunk FileData \<rparr>) (Children a)), s1))"

text \<open>
  \<open>getChapters\<close>: the element, then the time scale (\<open>this.timecodeScale\<close>, or a scan
  for the scale element when that is 0 or NaN), then the entries. \<open>await this.duration\<close>
  on a field not yet assigned gives \<open>undefined\<close>.
\<close>

definition getChapters :: "session \<Rightarrow> chapter_item list promise \<times> session" where
  "getChapters s =
     (case readSeekHeadTag s ''Chapters'' of
        (Inl e, s1) \<Rightarrow> (Inl e, s1)
      | (Inr Chapters0, s1) \<Rightarrow>
          (case (if num_truthy (timecodeScale s1) then (Inr (timecodeScale s1), s1)
                 else (case getFileStream s1 NoStart of
                         (stream, s2) \<Rightarrow>
                           (case readUntilTag stream (Some TimecodeScale) of
                              Inl e \<Rightarrow> (Inl e, s2)
                            | Inr found \<Rightarrow>
                                (Inr (js_div (ToNumber (case found of
                                                          None \<Rightarrow> Undefined
                                                        | Some t \<Rightarrow> data t))
                                        (Num 1000000)), s2)))) of
             (Inl e, s2) \<Rightarrow> (Inl e, s2)
           | (Inr scale, s2) \<Rightarrow>
               (resolveChapters Chapters0 scale
                  (case duration' s2 of None \<Rightarrow> Inr Undefined | Some p \<Rightarrow> p), s2)))"

text \<open>
  The constructor: the four calls in the order in which they settle. \<open>None\<close> when the
  index does not resolve within the given depth; the calls that await the index then
  never return.
\<close>

definition new_session :: "(jsstart \<Rightarrow> ebml list) \<Rightarrow> session" where
  "new_session f =
     \<lparr> file' = f, opened = [], destroyed = False, segmentStart = Num 0, tagCache = Map.empty,
       timecodeScale = Num 1, subtitleTracks = [], segment = None, seekHead = None,
       duration' = None, tracks = None \<rparr>"

definition construct ::
  "nat \<Rightarrow> (nat \<Rightarrow> string option) \<Rightarrow> (bytes \<Rightarrow> string) \<Rightarrow> (jsstart \<Rightarrow> ebml list)
   \<Rightarrow> session option" where
  "construct fuel tagName arr2text f =
     (case getSegment (new_session f) of
        (p1, s1) \<Rightarrow>
          (case getSeekHead fuel tagName (s1\<lparr>segment := Some p1\<rparr>) of
             (None, s2) \<Rightarrow> None
           | (Some p2, s2) \<Rightarrow>
               (case getDuration (s2\<lparr>seekHead := Some p2\<rparr>) of
                  (p3, s3) \<Rightarrow>
                    (case getTracks arr2text (s3\<lparr>duration' := Some p3\<rparr>) of
                       (p4, s4) \<Rightarrow> Some (s4\<lparr>tracks := Some p4\<rparr>)))))"

text \<open>
  The case in which a fetch scans and caches nothing: the index lists the name, the
  cache has no element for it, and the scan of the file does not deliver one.
\<close>

definition scan_unsuccessful :: "session \<Rightarrow> string \<Rightarrow> bool" where
  "scan_unsuccessful s tag =
     (case seekHead s of
        Some (Inr (Some idx)) \<Rightarrow>
          tagCache s (toLowerCase tag) = None
          \<and> (case idx tag of Some (Some entry) \<Rightarrow> True | _ \<Rightarrow> False)
          \<and> (case readUntilTag (file' s NoStart) (EbmlTagId_of tag) of
                Inr (Some child) \<Rightarrow> False | _ \<Rightarrow> True)
      | _ \<Rightarrow> False)"

subsection \<open>Containers for the examples\<close>

text \<open>
  A \<open>Blob\<close> as the file: \<open>slice(start)\<close> converts its argument to an integer offset.
  No argument is offset 0, and a value that is not a number converts to NaN and so to
  offset 0 as well: both start arguments of the code open the whole file.
\<close>

definition blob :: "ebml list \<Rightarrow> jsstart \<Rightarrow> ebml list" where
  "blob elements st = (case st of NoStart \<Rightarrow> elements | TagPlusNum _ _ \<Rightarrow> elements)"

text \<open>The reverse mapping of the enumeration on the identities of the examples.\<close>

definition example_names :: "nat \<Rightarrow> string option" where
  "example_names n =
     (if n = 0x114D9B74 then Some ''SeekHead''
      else if n = 0x1549A966 then Some ''Info''
      else if n = 0x1654AE6B then Some ''Tracks''
      else if n = 0x1043A770 then Some ''Chapters''
      else if n = 0x1941A469 then Some ''Attachments''
      else if n = 0x1C53BB6B then Some ''Cues''
      else None)"

definition seek_entry :: "bytes \<Rightarrow> nat \<Rightarrow> ebml" where
  "seek_entry code pos =
     master Seek [leaf SeekID (Binary code), leaf SeekPosition (Number (Num (of_nat pos)))]"

definition example_segment :: ebml where
  "example_segment = Tag Segment Undefined [] (Num 40) (Num 12)"

text \<open>A container with one index, which lists Info, Tracks and Attachments; the
  file holds Info, Tracks and Chapters, and no Attachments.\<close>

definition example_seekhead :: ebml where
  "example_seekhead =
     master SeekHead
       [seek_entry [0x15, 0x49, 0xA9, 0x66] 60, seek_entry [0x16, 0x54, 0xAE, 0x6B] 100,
        seek_entry [0x19, 0x41, 0xA4, 0x69] 900]"

text \<open>The index of that container, and the session once the index has resolved.\<close>

definition example_index :: index where
  "example_index =
     [''Info'' \<mapsto> Some (leaf SeekPosition (Number (Num 60))),
      ''Tracks'' \<mapsto> Some (leaf SeekPosition (Number (Num 100))),
      ''Attachments'' \<mapsto> Some (leaf SeekPosition (Number (Num 900)))]"

definition indexed_session :: "ebml list \<Rightarrow> session" where
  "indexed_session elements =
     (new_session (blob elements))
       \<lparr> opened := [NoStart, NoStart], segmentStart := Num 52,
         segment := Some (Inr (Some example_segment)),
         seekHead := Some (Inr (Some example_index)) \<rparr>"

definition example_info :: ebml where
  "example_info = master Info [leaf Duration (Number (Num 30))]"

definition example_tracks_element :: ebml where
  "example_tracks_element =
     master Tracks
       [master TrackEntry
          [leaf TrackNumber (Number (Num 3)), leaf TrackType (Number (Num 17)),
           leaf CodecID (String ''S_TEXT/ASS''), leaf Language (String ''eng'')]]"

definition example_file :: "ebml list" where
  "example_file =
     [example_segment, example_seekhead, example_info, example_tracks_element,
      example_chapters [0, 10, 20]]"

text \<open>The same elements without the segment element.\<close>

definition example_file_no_segment :: "ebml list" where
  "example_file_no_segment =
     [example_seekhead, example_info, example_tracks_element, example_chapters [0, 10, 20]]"

text \<open>A container whose first index references a second one (at 500) and lists
  Tracks at 100; the second index lists Tracks at 999 and Cues at 300.\<close>

definition chained_first :: ebml where
  "chained_first =
     master SeekHead
       [seek_entry [0x11, 0x4D, 0x9B, 0x74] 500, seek_entry [0x16, 0x54, 0xAE, 0x6B] 100]"

definition chained_second :: ebml where
  "chained_second =
     master SeekHead
       [seek_entry [0x16, 0x54, 0xAE, 0x6B] 999, seek_entry [0x1C, 0x53, 0xBB, 0x6B] 300]"

definition chained_file :: "ebml list" where
  "chained_file = [example_segment, chained_first, example_tracks_element, chained_second]"

text \<open>The read log after two calls of \<open>getAttachments\<close>.\<close>

definition attachments_twice :: "session \<Rightarrow> jsstart list" where
  "attachments_twice s = opened (snd (getAttachments (snd (getAttachments s))))"

text \<open>The session that the constructor builds for \<open>example_file\<close>.\<close>

definition example_session :: session where
  "example_session =
     (indexed_session example_file)
       \<lparr> opened := [NoStart, NoStart, NoStart, NoStart],
         tagCache := [''info'' \<mapsto> set_absoluteStart example_info (Num 112),
                      ''tracks'' \<mapsto> set_absoluteStart example_tracks_element (Num 152)],
         subtitleTracks := [(Number (Num 3), example_track ''ass'')],
         duration' := Some (Inr (Number (Num 30))),
         tracks := Some (Inr [example_track ''ass'']) \<rparr>"

section \<open>Properties of the arithmetic\<close>

text \<open>\<open>ilog2\<close> is the binary exponent: \<open>2\<^bsup>ilog2 a\<^esup> \<le> a < 2\<^bsup>ilog2 a + 1\<^esup>\<close>.\<close>

lemma bitlen_powi:
  assumes "0 < p"
  shows "(2::rat) powi (bitlen p - 1) \<le> of_int p" and "of_int p < (2::rat) powi (bitlen p)"
proof -
  from bitlen_bounds [OF assms]
  have a: "2 ^ nat (bitlen p - 1) \<le> p" and b: "p < 2 ^ nat (bitlen p)" by simp_all
  have b1: "1 \<le> bitlen p"
    using assms bitlen_eq_zero_iff [of p] bitlen_nonneg [of p] by linarith
  have "(of_int (2 ^ nat (bitlen p - 1)) :: rat) \<le> of_int p"
    using a by (simp only: of_int_le_iff)
  then show "(2::rat) powi (bitlen p - 1) \<le> of_int p"
    using b1 by (simp add: power_int_nonneg_exp)
  have "(of_int p :: rat) < of_int (2 ^ nat (bitlen p))"
    using b by (simp only: of_int_less_iff)
  then show "of_int p < (2::rat) powi (bitlen p)"
    using b1 by (simp add: power_int_nonneg_exp)
qed

lemma ilog2_bounds:
  assumes "0 < a"
  shows "2 powi (ilog2 a) \<le> a" and "a < 2 powi (ilog2 a + 1)"
proof -
  obtain p q where pq: "quotient_of a = (p, q)" by (cases "quotient_of a")
  then have q: "0 < q" by (rule quotient_of_denom_pos)
  have a: "a = of_int p / of_int q" using pq by (rule quotient_of_div)
  have p: "0 < p"
    using assms q unfolding a by (simp add: zero_less_divide_iff)
  let ?e0 = "bitlen p - bitlen q"
  note bp = bitlen_powi [OF p] and bq = bitlen_powi [OF q]
  have qpos: "(0::rat) < of_int q" using q by simp
  have lo: "2 powi (?e0 - 1) < a"
  proof -
    have "(2::rat) powi (bitlen p - 1) / 2 powi (bitlen q) < of_int p / of_int q"
      by (rule frac_less2) (use bp bq qpos in simp_all)
    moreover have "(2::rat) powi (bitlen p - 1) / 2 powi (bitlen q) = 2 powi (?e0 - 1)"
      by (simp add: power_int_diff)
    ultimately show ?thesis unfolding a by simp
  qed
  have hi: "a < 2 powi (?e0 + 1)"
  proof -
    have "of_int p / of_int q < (2::rat) powi (bitlen p) / 2 powi (bitlen q - 1)"
      by (rule frac_less) (use bp bq p in simp_all)
    moreover have "(2::rat) powi (bitlen p) / 2 powi (bitlen q - 1) = 2 powi (?e0 + 1)"
      by (simp add: power_int_diff power_int_add)
    ultimately show ?thesis unfolding a by simp
  qed
  show "2 powi (ilog2 a) \<le> a"
    using lo by (simp add: ilog2_def pq Let_def)
  show "a < 2 powi (ilog2 a + 1)"
    using hi by (auto simp: ilog2_def pq Let_def not_le)
qed

lemma ilog2_unique:
  assumes "2 powi e \<le> a" and "a < 2 powi (e + 1)"
  shows "ilog2 a = e"
proof -
  have pos: "0 < a"
    using assms(1) zero_less_power_int [of "2::rat" e] by linarith
  note b = ilog2_bounds [OF pos]
  have "(2::rat) powi e < 2 powi (ilog2 a + 1)"
    using assms(1) b(2) by linarith
  then have 1: "e < ilog2 a + 1"
    by (smt (verit) power_int_increasing one_le_numeral not_less)
  have "(2::rat) powi (ilog2 a) < 2 powi (e + 1)"
    using assms(2) b(1) by linarith
  then have 2: "ilog2 a < e + 1"
    by (smt (verit) power_int_increasing one_le_numeral not_less)
  from 1 2 show ?thesis by simp
qed


lemma round_half_even_of_int: "round_half_even (of_int k) = k"
  by (simp add: round_half_even_def)

lemma round_half_even_near:
  assumes "\<bar>q - of_int m\<bar> < 1 / 2"
  shows "round_half_even q = m"
proof (cases "of_int m \<le> q")
  case True
  with assms have "\<lfloor>q\<rfloor> = m" by (intro floor_unique) linarith+
  with True assms show ?thesis by (simp add: round_half_even_def)
next
  case False
  with assms have f: "\<lfloor>q\<rfloor> = m - 1" by (intro floor_unique; simp; linarith)
  from False assms have "1 / 2 < q - of_int (m - 1)" by simp
  with f show ?thesis by (simp add: round_half_even_def Let_def)
qed

lemma round_half_even_tie_up:
  assumes "q = of_int m - 1 / 2" and "even m"
  shows "round_half_even q = m"
proof -
  have f: "\<lfloor>q\<rfloor> = m - 1" unfolding assms(1) by (intro floor_unique) simp_all
  have "q - of_int (m - 1) = 1 / 2" unfolding assms(1) by simp
  with f assms(2) show ?thesis by (simp add: round_half_even_def Let_def)
qed

lemma round_half_even_tie_down:
  assumes "q = of_int m + 1 / 2" and "even m"
  shows "round_half_even q = m"
proof -
  have f: "\<lfloor>q\<rfloor> = m" unfolding assms(1) by (intro floor_unique) simp_all
  with assms show ?thesis by (simp add: round_half_even_def Let_def)
qed

lemma round_double_normal:
  assumes lo: "2 powi e \<le> \<bar>r\<bar>" and hi: "\<bar>r\<bar> < 2 powi (e + 1)" and e: "- 1022 \<le> e"
    and m: "round_half_even (\<bar>r\<bar> / 2 powi (e - 52)) = m"
    and v: "of_int m * 2 powi (e - 52) < (2::rat) ^ 1024"
  shows "round_double r =
           Num (if 0 < r then of_int m * 2 powi (e - 52) else - (of_int m * 2 powi (e - 52)))"
proof -
  have i: "ilog2 \<bar>r\<bar> = e" using lo hi by (rule ilog2_unique)
  have n: "r \<noteq> 0"
  proof
    assume "r = 0"
    with lo have "(2::rat) powi e \<le> 0" by simp
    moreover have "(0::rat) < 2 powi e" by (rule zero_less_power_int) simp
    ultimately show False by linarith
  qed
  have mx: "max e (- 1022) = e" using e by simp
  show ?thesis
    unfolding round_double_def Let_def i mx m using n v by (simp add: not_le)
qed

lemma round_double_exact:
  assumes lo: "2 powi e \<le> \<bar>r\<bar>" and hi: "\<bar>r\<bar> < 2 powi (e + 1)" and e: "- 1022 \<le> e" "e < 1024"
    and k: "\<bar>r\<bar> / 2 powi (e - 52) = of_int k"
  shows "round_double r = Num r"
proof -
  have u: "(0::rat) < 2 powi (e - 52)" by (simp add: zero_less_power_int)
  have a: "of_int k * 2 powi (e - 52) = \<bar>r\<bar>"
    using k u by (simp add: field_simps)
  have "(2::rat) powi (e + 1) \<le> 2 powi 1024"
    using e(2) by (intro power_int_increasing) simp_all
  then have v: "of_int k * 2 powi (e - 52) < (2::rat) ^ 1024"
    unfolding a using hi by simp
  have m: "round_half_even (\<bar>r\<bar> / 2 powi (e - 52)) = k"
    unfolding k by (rule round_half_even_of_int)
  show ?thesis
    unfolding round_double_normal [OF lo hi e(1) m v] a by simp
qed

lemma round_double_of_int:
  assumes "\<bar>n\<bar> \<le> 2 ^ 53"
  shows "round_double (of_int n) = Num (of_int n)"
proof (cases "n = 0")
  case True
  then show ?thesis by (simp add: round_double_def)
next
  case False
  let ?a = "\<bar>of_int n\<bar> :: rat"
  have a: "?a = of_int \<bar>n\<bar>" by simp
  have pos: "0 < ?a" using False by simp
  note b = ilog2_bounds [OF pos]
  let ?e = "ilog2 ?a"
  have "1 \<le> \<bar>n\<bar>" using False by simp
  then have "(1::rat) \<le> of_int \<bar>n\<bar>" by (simp only: of_int_1_le_iff)
  then have "(2::rat) powi 0 < 2 powi (?e + 1)" using b(2) by simp
  then have e0: "0 \<le> ?e"
    by (smt (verit) power_int_increasing one_le_numeral not_less)
  have "(of_int \<bar>n\<bar> :: rat) \<le> of_int (2 ^ 53)" using assms by (simp only: of_int_le_iff)
  then have le53: "?a \<le> 2 powi 53" by simp
  then have "(2::rat) powi ?e \<le> 2 powi 53" using b(1) by linarith
  then have e53: "?e \<le> 53"
    by (smt (verit) power_int_strict_increasing one_less_numeral_iff semiring_norm not_less)
  show ?thesis
  proof (cases "?e = 53")
    case True
    with b(1) le53 have eq: "?a = 2 powi 53" by simp
    have "?a / 2 powi (?e - 52) = ?a / 2 powi (53 - 52)"
      by (simp only: True)
    also have "\<dots> = 2 powi 53 / 2 powi (53 - 52)"
      by (simp only: eq)
    also have "\<dots> = of_int (2 ^ 52)"
      by simp
    finally have k: "?a / 2 powi (?e - 52) = of_int (2 ^ 52)" .
    show ?thesis
      by (rule round_double_exact [OF b(1) b(2) _ _ k]) (use e0 e53 in simp_all)
  next
    case False
    with e53 have e52: "?e \<le> 52" by simp
    have "(2::rat) powi (?e - 52) = inverse (2 powi (52 - ?e))"
      using power_int_minus [of "2::rat" "52 - ?e"] by simp
    also have "\<dots> = inverse (2 ^ nat (52 - ?e))"
      using e52 by (simp add: power_int_nonneg_exp)
    finally have "(2::rat) powi (?e - 52) = inverse (2 ^ nat (52 - ?e))" .
    then have k: "?a / 2 powi (?e - 52) = of_int (\<bar>n\<bar> * 2 ^ nat (52 - ?e))"
      by (simp add: field_simps)
    show ?thesis
      by (rule round_double_exact [OF b(1) b(2) _ _ k]) (use e0 e52 in simp_all)
  qed
qed

lemma round_double_0 [simp]: "round_double 0 = Num 0"
  by (simp add: round_double_def)

lemma round_double_1 [simp]: "round_double 1 = Num 1"
  using round_double_of_int [of 1] by simp

lemma round_double_numeral [simp]:
  "(numeral k :: int) \<le> 9007199254740992 \<Longrightarrow> round_double (numeral k) = Num (numeral k)"
  using round_double_of_int [of "numeral k"] by simp

lemma round_double_neg_numeral [simp]:
  "(numeral k :: int) \<le> 9007199254740992 \<Longrightarrow> round_double (- numeral k) = Num (- numeral k)"
  using round_double_of_int [of "- numeral k"] by simp

text \<open>
  One tenth, the time scale of a file whose \<open>TimecodeScale\<close> is 100000, is no
  double, and neither are the exact products of the nearest double with 3 and with 7:
  the first lies halfway between two doubles and goes to the even one, so that
  \<open>3 * 0.1\<close> is \<open>0.30000000000000004\<close> and \<open>7 * 0.1\<close> is \<open>0.7000000000000001\<close>.
\<close>

lemma round_double_tenth:
  "round_double (1 / 10) = Num (3602879701896397 / 36028797018963968)"
proof -
  have m: "round_half_even (\<bar>1 / 10\<bar> / 2 powi (- 4 - 52)) = 7205759403792794"
    by (rule round_half_even_near) simp
  have "round_double (1 / 10) =
     Num (if (0::rat) < 1 / 10 then of_int 7205759403792794 * 2 powi (- 4 - 52)
          else - (of_int 7205759403792794 * 2 powi (- 4 - 52)))"
    by (rule round_double_normal [OF _ _ _ m]) simp_all
  then show ?thesis by simp
qed

lemma scale_100000:
  "js_div (Num 100000) (Num 1000000) = Num (3602879701896397 / 36028797018963968)"
  by (simp add: round_double_tenth)

lemma three_tenths:
  "js_mul (Num 3) (Num (3602879701896397 / 36028797018963968))
     = Num (1351079888211149 / 4503599627370496)"
proof -
  let ?r = "3 * (3602879701896397 / 36028797018963968) :: rat"
  have m: "round_half_even (\<bar>?r\<bar> / 2 powi (- 2 - 52)) = 5404319552844596"
    by (rule round_half_even_tie_up) simp_all
  have "round_double ?r =
     Num (if 0 < ?r then of_int 5404319552844596 * 2 powi (- 2 - 52)
          else - (of_int 5404319552844596 * 2 powi (- 2 - 52)))"
    by (rule round_double_normal [OF _ _ _ m]) simp_all
  then have "round_double ?r = Num (1351079888211149 / 4503599627370496)"
    by simp
  then show ?thesis
    by (simp only: js_mul.simps)
qed

lemma seven_tenths:
  "js_mul (Num 7) (Num (3602879701896397 / 36028797018963968))
     = Num (6305039478318695 / 9007199254740992)"
proof -
  let ?r = "7 * (3602879701896397 / 36028797018963968) :: rat"
  have m: "round_half_even (\<bar>?r\<bar> / 2 powi (- 1 - 52)) = 6305039478318695"
    by (rule round_half_even_near) simp
  have "round_double ?r =
     Num (if 0 < ?r then of_int 6305039478318695 * 2 powi (- 1 - 52)
          else - (of_int 6305039478318695 * 2 powi (- 1 - 52)))"
    by (rule round_double_normal [OF _ _ _ m]) simp_all
  then have "round_double ?r = Num (6305039478318695 / 9007199254740992)"
    by simp
  then show ?thesis
    by (simp only: js_mul.simps)
qed

text \<open>Sums and products of integers are exact up to \<open>2\<^bsup>53\<^esup>\<close>.\<close>

lemma js_add_int:
  "\<bar>a + b\<bar> \<le> 2 ^ 53 \<Longrightarrow> js_add (Num (of_int a)) (Num (of_int b)) = Num (of_int (a + b))"
  using round_double_of_int [of "a + b"] by simp

lemma js_mul_int:
  "\<bar>a * b\<bar> \<le> 2 ^ 53 \<Longrightarrow> js_mul (Num (of_int a)) (Num (of_int b)) = Num (of_int (a * b))"
  using round_double_of_int [of "a * b"] by simp

text \<open>
  Strings of hexadecimal digits without a prefix, the form in which an integer too
  large for a Number may reach the code: digits alone are read as a decimal number,
  digits around one \<open>e\<close> as a number with an exponent, and any other letter makes the
  string NaN.
\<close>

lemma StringToNumber_digits: "StringToNumber ''0100000000000040'' = Num 100000000000040"
  by (simp add: StringToNumber_def trim_def StrWhiteSpaceChar_def StrDecimalLiteral_def
        StrUnsignedDecimalLiteral_def is_digit_def digit_value_def ExponentPart_def Let_def)

lemma StringToNumber_letter: "StringToNumber ''01000000000000ff'' = NaN"
  by (simp add: StringToNumber_def trim_def StrWhiteSpaceChar_def StrDecimalLiteral_def
        StrUnsignedDecimalLiteral_def is_digit_def digit_value_def ExponentPart_def Let_def)

lemma StringToNumber_exponent:
  "StringToNumber ''0100000000001e55'' =
     Num 1000000000010000077357554443786068636291109818033885048508059222016"
proof -
  have t: "trim ''0100000000001e55'' = ''0100000000001e55''"
    by (simp add: trim_def StrWhiteSpaceChar_def)
  have u: "StrUnsignedDecimalLiteral ''0100000000001e55'' = Some (100000000001 * 10 ^ 55)"
    by (simp add: StrUnsignedDecimalLiteral_def is_digit_def digit_value_def ExponentPart_def
          Let_def SignedInteger_def Digits_def)
  have m: "round_half_even (\<bar>100000000001 * 10 ^ 55\<bar> / 2 powi (219 - 52)) = 5345529420237847"
    by (rule round_half_even_near) simp
  have "round_double (100000000001 * 10 ^ 55) =
     Num (if (0::rat) < 100000000001 * 10 ^ 55 then of_int 5345529420237847 * 2 powi (219 - 52)
          else - (of_int 5345529420237847 * 2 powi (219 - 52)))"
    by (rule round_double_normal [OF _ _ _ m]) simp_all
  then have r: "round_double 1000000000010000000000000000000000000000000000000000000000000000000
     = Num 1000000000010000077357554443786068636291109818033885048508059222016"
    by simp
  show ?thesis
    by (simp add: StringToNumber_def t StrDecimalLiteral_def u r)
qed

lemma StringToNumber_exponent_scaled:
  "js_mul (StringToNumber ''0100000000001e55'') (Num 1) =
     Num 1000000000010000077357554443786068636291109818033885048508059222016"
proof -
  have "round_double 1000000000010000077357554443786068636291109818033885048508059222016
      = Num 1000000000010000077357554443786068636291109818033885048508059222016"
    by (rule round_double_exact [where e = 219 and k = 5345529420237847]) simp_all
  then show ?thesis
    by (simp add: StringToNumber_exponent)
qed

lemma StringToNumber_forms:
  "StringToNumber [] = Num 0" "StringToNumber '' 0x1F '' = Num 31"
  "StringToNumber ''-2.5e1'' = Num (- 25)" "StringToNumber ''5.'' = Num 5"
  "StringToNumber ''.5e1'' = Num 5" "StringToNumber ''.'' = NaN"
  "StringToNumber ''1e'' = NaN" "StringToNumber ''-0x10'' = NaN"
  "StringToNumber ''-Infinity'' = NegInf" "StringToNumber ''0.1'' = Num (3602879701896397 / 36028797018963968)"
  by (simp_all add: StringToNumber_def trim_def StrWhiteSpaceChar_def StrDecimalLiteral_def
        StrUnsignedDecimalLiteral_def is_digit_def digit_value_def ExponentPart_def Let_def
        SignedInteger_def Digits_def NonDecimalIntegerLiteral_def round_double_tenth)

section \<open>Properties of the block extractor\<close>

lemma upt_1_8: "[Suc 0..<8] = [Suc 0, 2, 3, 4, 5, 6, 7::nat]"
  by code_simp

lemma upt_2_8: "[2..<8] = [2, 3, 4, 5, 6, 7::nat]"
  by code_simp


lemma handleBlockGroup_emits:
  assumes "getChild chunk Block = Some (EbmlBlock btrack bvalue bpayload)"
    and "registry (Number (Num (of_nat btrack))) = Some trk"
    and "(if compressed trk then inflateSync bpayload else Some bpayload) = Some p"
  shows "handleBlockGroup arr2text inflateSync registry chunk scale cct =
     Inr (Some ((if type trk \<in> SSA_TYPES then
         \<lparr> text' = join_comma (drop 8 (split_comma (arr2text p))),
           time = js_mul (js_add (Num (of_int bvalue)) (case cct of None \<Rightarrow> Num 0 | Some c \<Rightarrow> c)) scale,
           duration = js_mul (ToNumber (getData chunk BlockDuration)) scale,
           keys = map (\<lambda>i. (SSA_KEYS ! i, at_index (split_comma (arr2text p)) i))
                                          [(if type trk = ''ssa'' then 2 else 1) ..< 8] \<rparr>
        else \<lparr> text' = arr2text p,
           time = js_mul (js_add (Num (of_int bvalue)) (case cct of None \<Rightarrow> Num 0 | Some c \<Rightarrow> c)) scale,
           duration = js_mul (ToNumber (getData chunk BlockDuration)) scale,
           keys = [] \<rparr>), btrack))"
  using assms unfolding handleBlockGroup_def
  by (simp add: Let_def split: if_splits)

lemma example_values:
  "split_comma ''0,1,Default,,0,0,0,,Hello, world'' =
     [''0'', ''1'', ''Default'', [], ''0'', ''0'', ''0'', [], ''Hello'', '' world'']"
  by simp

lemma ssa_keys_ass:
  "map (\<lambda>i. (SSA_KEYS ! i, at_index values i)) [1..<8] =
     [(''layer'', at_index values 1), (''style'', at_index values 2),
      (''name'', at_index values 3), (''marginL'', at_index values 4),
      (''marginR'', at_index values 5), (''marginV'', at_index values 6),
      (''effect'', at_index values 7)]"
  by (simp add: upt_1_8 SSA_KEYS_def)

lemma ssa_keys_ssa:
  "map (\<lambda>i. (SSA_KEYS ! i, at_index values i)) [2..<8] =
     [(''style'', at_index values 2),
      (''name'', at_index values 3), (''marginL'', at_index values 4),
      (''marginR'', at_index values 5), (''marginV'', at_index values 6),
      (''effect'', at_index values 7)]"
  by (simp add: upt_2_8 SSA_KEYS_def)

lemma handleBlockGroup_ssa:
  assumes "getChild chunk Block = Some (EbmlBlock btrack bvalue bpayload)"
    and "registry (Number (Num (of_nat btrack))) = Some trk"
    and "(if compressed trk then inflateSync bpayload else Some bpayload) = Some p"
    and "type trk \<in> SSA_TYPES"
  shows "\<exists>ev. handleBlockGroup arr2text inflateSync registry chunk scale cct
              = Inr (Some (ev, btrack))
          \<and> text' ev = join_comma (drop 8 (split_comma (arr2text p)))
          \<and> keys ev = map (\<lambda>i. (SSA_KEYS ! i, at_index (split_comma (arr2text p)) i))
                          [(if type trk = ''ssa'' then 2 else 1) ..< 8]"
  using assms
    handleBlockGroup_emits [where chunk = chunk and registry = registry
      and inflateSync = inflateSync and trk = trk and p = p and bpayload = bpayload]
  by simp

text \<open>
  Claim C1. A block group whose block belongs to a registered subtitle track (and whose
  payload, on a compressed track, inflates) emits an event on that track with
  time = (block relative time + current cluster timecode) * timecodeScale and
  duration = block duration * timecodeScale, in the arithmetic of JavaScript Numbers:
  each sum and product is the double nearest to the exact one. The values are the exact
  integers while the operands are integers and the results do not exceed \<open>2\<^bsup>53\<^esup>\<close> in
  magnitude. With timecodeScale 1, cluster timecode 1000, relative time 50 and block
  duration 40 the event has time 1050 and duration 40; with the time scale of a
  \<open>TimecodeScale\<close> of 100000 (the double nearest to 0.1), cluster timecode 0, relative
  time 3 and duration 7 it has time 0.30000000000000004 and duration 0.7000000000000001.
  A block group without a duration has the duration NaN, and a duration that the
  decoder delivers as a string is converted to a number first.
\<close>

theorem handleBlockGroup_timing:
  assumes "getChild chunk Block = Some (EbmlBlock btrack bvalue bpayload)"
    and "registry (Number (Num (of_nat btrack))) = Some trk"
    and "(if compressed trk then inflateSync bpayload else Some bpayload) = Some p"
  shows "\<exists>ev. handleBlockGroup arr2text inflateSync registry chunk scale cct
              = Inr (Some (ev, btrack))
          \<and> time ev = js_mul (js_add (Num (of_int bvalue))
                            (case cct of None \<Rightarrow> Num 0 | Some c \<Rightarrow> c)) scale
          \<and> duration ev = js_mul (ToNumber (getData chunk BlockDuration)) scale
          \<and> (\<forall>c s t. cct = Some (Num c) \<and> scale = Num s
                  \<and> round_double (of_int bvalue + c) = Num t
               \<longrightarrow> time ev = round_double (t * s))
          \<and> (\<forall>d s. getData chunk BlockDuration = Number (Num d) \<and> scale = Num s
               \<longrightarrow> duration ev = round_double (d * s))
          \<and> (\<forall>c s. cct = Some (Num (of_int c)) \<and> scale = Num (of_int s)
                  \<and> \<bar>bvalue + c\<bar> \<le> 2 ^ 53 \<and> \<bar>(bvalue + c) * s\<bar> \<le> 2 ^ 53
               \<longrightarrow> time ev = Num (of_int ((bvalue + c) * s)))
          \<and> (\<forall>s. cct = None \<and> scale = Num (of_int s)
                  \<and> \<bar>bvalue\<bar> \<le> 2 ^ 53 \<and> \<bar>bvalue * s\<bar> \<le> 2 ^ 53
               \<longrightarrow> time ev = Num (of_int (bvalue * s)))
          \<and> (\<forall>d s. getData chunk BlockDuration = Number (Num (of_int d))
                  \<and> scale = Num (of_int s) \<and> \<bar>d * s\<bar> \<le> 2 ^ 53
               \<longrightarrow> duration ev = Num (of_int (d * s)))
          \<and> (getData chunk BlockDuration = Undefined \<longrightarrow> duration ev = NaN)
          \<and> (getData chunk BlockDuration = String ''0100000000001e55'' \<and> scale = Num 1
               \<longrightarrow> duration ev
                    = Num 1000000000010000077357554443786068636291109818033885048508059222016)
          \<and> (scale = Num 1 \<and> cct = Some (Num 1000) \<and> bvalue = 50
               \<and> getData chunk BlockDuration = Number (Num 40)
               \<longrightarrow> time ev = Num 1050 \<and> duration ev = Num 40)
          \<and> (scale = js_div (Num 100000) (Num 1000000) \<and> cct = Some (Num 0) \<and> bvalue = 3
               \<and> getData chunk BlockDuration = Number (Num 7)
               \<longrightarrow> time ev = Num (1351079888211149 / 4503599627370496)
                   \<and> duration ev = Num (6305039478318695 / 9007199254740992))"
proof -
  let ?t = "js_mul (js_add (Num (of_int bvalue)) (case cct of None \<Rightarrow> Num 0 | Some c \<Rightarrow> c)) scale"
  let ?d = "js_mul (ToNumber (getData chunk BlockDuration)) scale"
  from assms
    handleBlockGroup_emits [where chunk = chunk and registry = registry
      and inflateSync = inflateSync and trk = trk and p = p and bpayload = bpayload]
  obtain ev where r: "handleBlockGroup arr2text inflateSync registry chunk scale cct
              = Inr (Some (ev, btrack))"
    and t: "time ev = ?t" and d: "duration ev = ?d"
    by simp
  have c1: "time ev = round_double (t * s)"
    if "cct = Some (Num c) \<and> scale = Num s \<and> round_double (of_int bvalue + c) = Num t"
    for c s t
    using that unfolding t by simp
  have c2: "duration ev = round_double (d' * s)"
    if "getData chunk BlockDuration = Number (Num d') \<and> scale = Num s" for d' s
    using that unfolding d by simp
  have c3: "time ev = Num (of_int ((bvalue + c) * s))"
    if "cct = Some (Num (of_int c)) \<and> scale = Num (of_int s)
          \<and> \<bar>bvalue + c\<bar> \<le> 2 ^ 53 \<and> \<bar>(bvalue + c) * s\<bar> \<le> 2 ^ 53" for c s
  proof -
    from that have "?t = js_mul (js_add (Num (of_int bvalue)) (Num (of_int c))) (Num (of_int s))"
      by simp
    also have "\<dots> = js_mul (Num (of_int (bvalue + c))) (Num (of_int s))"
      using that by (simp only: js_add_int)
    also have "\<dots> = Num (of_int ((bvalue + c) * s))"
      using that by (simp only: js_mul_int)
    finally show ?thesis unfolding t .
  qed
  have c4: "time ev = Num (of_int (bvalue * s))"
    if "cct = None \<and> scale = Num (of_int s) \<and> \<bar>bvalue\<bar> \<le> 2 ^ 53 \<and> \<bar>bvalue * s\<bar> \<le> 2 ^ 53"
    for s
  proof -
    from that have "?t = js_mul (js_add (Num (of_int bvalue)) (Num (of_int 0))) (Num (of_int s))"
      by simp
    also have "\<dots> = js_mul (Num (of_int (bvalue + 0))) (Num (of_int s))"
      using that by (subst js_add_int) simp_all
    also have "\<dots> = Num (of_int (bvalue * s))"
      using that js_mul_int [of bvalue s] by simp
    finally show ?thesis unfolding t .
  qed
  have c5: "duration ev = Num (of_int (d' * s))"
    if "getData chunk BlockDuration = Number (Num (of_int d'))
          \<and> scale = Num (of_int s) \<and> \<bar>d' * s\<bar> \<le> 2 ^ 53" for d' s
  proof -
    from that have "?d = js_mul (Num (of_int d')) (Num (of_int s))"
      by simp
    also have "\<dots> = Num (of_int (d' * s))"
      using that by (simp only: js_mul_int)
    finally show ?thesis unfolding d .
  qed
  have c8: "duration ev = NaN" if "getData chunk BlockDuration = Undefined"
    using that unfolding d by simp
  have c9: "duration ev
              = Num 1000000000010000077357554443786068636291109818033885048508059222016"
    if "getData chunk BlockDuration = String ''0100000000001e55'' \<and> scale = Num 1"
  proof -
    from that have "?d = js_mul (StringToNumber ''0100000000001e55'') (Num 1)"
      by simp
    then show ?thesis
      unfolding d by (simp only: StringToNumber_exponent_scaled)
  qed
  have c6: "time ev = Num 1050 \<and> duration ev = Num 40"
    if "scale = Num 1 \<and> cct = Some (Num 1000) \<and> bvalue = 50
               \<and> getData chunk BlockDuration = Number (Num 40)"
    using that unfolding t d by simp
  have c7: "time ev = Num (1351079888211149 / 4503599627370496)
                   \<and> duration ev = Num (6305039478318695 / 9007199254740992)"
    if "scale = js_div (Num 100000) (Num 1000000) \<and> cct = Some (Num 0) \<and> bvalue = 3
               \<and> getData chunk BlockDuration = Number (Num 7)"
  proof -
    from that have a: "scale = js_div (Num 100000) (Num 1000000)" "cct = Some (Num 0)"
        "bvalue = 3" "getData chunk BlockDuration = Number (Num 7)"
      by blast+
    have e: "js_add (Num (of_int 3)) (Num 0) = Num 3"
      by simp
    have "time ev = js_mul (js_add (Num (of_int 3)) (Num 0))
                      (Num (3602879701896397 / 36028797018963968))"
      unfolding t a scale_100000 by (simp only: option.case)
    then have 1: "time ev = Num (1351079888211149 / 4503599627370496)"
      by (simp only: e three_tenths)
    have "duration ev = js_mul (Num 7) (Num (3602879701896397 / 36028797018963968))"
      unfolding d a scale_100000 by (simp only: ToNumber.simps)
    then have 2: "duration ev = Num (6305039478318695 / 9007199254740992)"
      by (simp only: seven_tenths)
    from 1 2 show ?thesis ..
  qed
  show ?thesis
  proof (intro exI [of _ ev] conjI allI impI)
  qed (fact r t d | erule c1 c2 c3 c4 c5 c8 c9 | erule c6 [THEN conjunct1] c6 [THEN conjunct2]
         c7 [THEN conjunct1] c7 [THEN conjunct2])+
qed

text \<open>
  The block group of the example (relative time 50, duration 40, on track 3) at the
  time scales 1 and 2, and the block group with relative time 3 and duration 7 at the
  time scale of a \<open>TimecodeScale\<close> of 100000.
\<close>

theorem handleBlockGroup_timing_witness:
  "(\<exists>ev. handleBlockGroup (map char_of) Some (example_tracks ''srt'') example_blockgroup
           (Num 1) (Some (Num 1000)) = Inr (Some (ev, 3))
        \<and> time ev = Num 1050 \<and> duration ev = Num 40)
   \<and> (\<exists>ev. handleBlockGroup (map char_of) Some (example_tracks ''srt'') example_blockgroup
           (Num 2) (Some (Num 1000)) = Inr (Some (ev, 3))
        \<and> time ev = Num 2100 \<and> duration ev = Num 80)
   \<and> (\<exists>ev. handleBlockGroup (map char_of) Some (example_tracks ''srt'')
           example_short_blockgroup (js_div (Num 100000) (Num 1000000)) (Some (Num 0))
           = Inr (Some (ev, 3))
        \<and> time ev = Num (1351079888211149 / 4503599627370496)
        \<and> duration ev = Num (6305039478318695 / 9007199254740992))"
proof -
  have b: "getChild example_blockgroup Block = Some (EbmlBlock 3 50 [72, 105])"
    by (simp add: getChild_def example_blockgroup_def)
  have b': "getChild example_short_blockgroup Block = Some (EbmlBlock 3 3 [72, 105])"
    by (simp add: getChild_def example_short_blockgroup_def)
  have t: "example_tracks ''srt'' (Number (Num (of_nat 3))) = Some (example_track ''srt'')"
    by (simp add: example_tracks_def)
  have p: "(if compressed (example_track ''srt'') then Some [72, 105] else Some [72, 105])
            = Some [72, 105::nat]"
    by simp
  have d: "getData example_blockgroup BlockDuration = Number (Num 40)"
    by (simp add: getData_def getChild_def example_blockgroup_def)
  have d': "getData example_short_blockgroup BlockDuration = Number (Num 7)"
    by (simp add: getData_def getChild_def example_short_blockgroup_def)
  note th = handleBlockGroup_timing [where btrack = 3
      and bpayload = "[72, 105]" and registry = "example_tracks ''srt''"
      and trk = "example_track ''srt''" and inflateSync = Some and p = "[72, 105]"
      and arr2text = "map char_of", OF _ t p]
  from th [where chunk = example_blockgroup and bvalue = 50 and scale = "Num 1"
      and cct = "Some (Num 1000)", OF b]
  have 1: "\<exists>ev. handleBlockGroup (map char_of) Some (example_tracks ''srt'') example_blockgroup
           (Num 1) (Some (Num 1000)) = Inr (Some (ev, 3))
        \<and> time ev = Num 1050 \<and> duration ev = Num 40"
    using d by auto
  from th [where chunk = example_blockgroup and bvalue = 50 and scale = "Num 2"
      and cct = "Some (Num 1000)", OF b]
  obtain ev2 where r2: "handleBlockGroup (map char_of) Some (example_tracks ''srt'')
           example_blockgroup (Num 2) (Some (Num 1000)) = Inr (Some (ev2, 3))"
    and t2: "\<forall>c s. Some (Num 1000) = Some (Num (of_int c)) \<and> Num 2 = Num (of_int s)
                  \<and> \<bar>50 + c\<bar> \<le> 2 ^ 53 \<and> \<bar>(50 + c) * s\<bar> \<le> 2 ^ 53
               \<longrightarrow> time ev2 = Num (of_int ((50 + c) * s))"
    and d2: "\<forall>d s. getData example_blockgroup BlockDuration = Number (Num (of_int d))
                  \<and> Num 2 = Num (of_int s) \<and> \<bar>d * s\<bar> \<le> 2 ^ 53
               \<longrightarrow> duration ev2 = Num (of_int (d * s))"
    by (elim exE conjE)
  from t2 [rule_format, of 1000 2] have t2': "time ev2 = Num 2100"
    by simp
  from d2 [rule_format, of 40 2] d have d2': "duration ev2 = Num 80"
    by simp
  from r2 t2' d2'
  have 2: "\<exists>ev. handleBlockGroup (map char_of) Some (example_tracks ''srt'') example_blockgroup
           (Num 2) (Some (Num 1000)) = Inr (Some (ev, 3))
        \<and> time ev = Num 2100 \<and> duration ev = Num 80"
    by (intro exI [of _ ev2] conjI)
  from th [where chunk = example_short_blockgroup and bvalue = 3
      and scale = "js_div (Num 100000) (Num 1000000)" and cct = "Some (Num 0)", OF b']
  have 3: "\<exists>ev. handleBlockGroup (map char_of) Some (example_tracks ''srt'')
           example_short_blockgroup (js_div (Num 100000) (Num 1000000)) (Some (Num 0))
           = Inr (Some (ev, 3))
        \<and> time ev = Num (1351079888211149 / 4503599627370496)
        \<and> duration ev = Num (6305039478318695 / 9007199254740992)"
    using d' by (elim exE conjE) (simp only: simp_thms, blast)
  from 1 2 3 show ?thesis by (intro conjI)
qed

text \<open>
  Claim C5. On a track of subtype \<open>ass\<close> or \<open>ssa\<close> the decoded text is split
  on commas. \<open>readOrder\<close> is never assigned; for \<open>ass\<close> the keys \<open>layer\<close> to
  \<open>effect\<close> take the fields at positions 1 to 7, for \<open>ssa\<close> the assignment starts
  one position later, at \<open>style\<close> (position 2), and \<open>layer\<close> stays unset; the
  fields from position 8 on (the ninth field onward), rejoined with commas, are the
  text. For the text \<open>0,1,Default,,0,0,0,,Hello, world\<close> the style is \<open>Default\<close>
  and the final text is \<open>Hello, world\<close>.
\<close>

theorem handleBlockGroup_ssa_fields:
  assumes "getChild chunk Block = Some (EbmlBlock btrack bvalue bpayload)"
    and "registry (Number (Num (of_nat btrack))) = Some trk"
    and "(if compressed trk then inflateSync bpayload else Some bpayload) = Some p"
    and "type trk \<in> SSA_TYPES"
  shows "\<exists>ev. handleBlockGroup arr2text inflateSync registry chunk scale cct
              = Inr (Some (ev, btrack))
          \<and> text' ev = join_comma (drop 8 (split_comma (arr2text p)))
          \<and> map_of (keys ev) ''readOrder'' = None
          \<and> (type trk = ''ass'' \<longrightarrow>
                keys ev = map (\<lambda>i. (SSA_KEYS ! i, at_index (split_comma (arr2text p)) i))
                            [1, 2, 3, 4, 5, 6, 7])
          \<and> (type trk = ''ssa'' \<longrightarrow>
                keys ev = map (\<lambda>i. (SSA_KEYS ! i, at_index (split_comma (arr2text p)) i))
                            [2, 3, 4, 5, 6, 7]
                \<and> map_of (keys ev) ''layer'' = None)
          \<and> (arr2text p = ''0,1,Default,,0,0,0,,Hello, world'' \<longrightarrow>
                map_of (keys ev) ''style'' = Some (String ''Default'')
                \<and> text' ev = ''Hello, world''
                \<and> (type trk = ''ass'' \<longrightarrow>
                      map (\<lambda>k. map_of (keys ev) k) SSA_KEYS =
                        [None, Some (String ''1''), Some (String ''Default''), Some (String []),
                         Some (String ''0''), Some (String ''0''), Some (String ''0''),
                         Some (String []), None])
                \<and> (type trk = ''ssa'' \<longrightarrow>
                      map (\<lambda>k. map_of (keys ev) k) SSA_KEYS =
                        [None, None, Some (String ''Default''), Some (String []),
                         Some (String ''0''), Some (String ''0''), Some (String ''0''),
                         Some (String []), None]))"
proof -
  let ?vs = "split_comma (arr2text p)"
  obtain ev where r: "handleBlockGroup arr2text inflateSync registry chunk scale cct
              = Inr (Some (ev, btrack))"
    and tx: "text' ev = join_comma (drop 8 ?vs)"
    and ks: "keys ev = map (\<lambda>i. (SSA_KEYS ! i, at_index ?vs i))
                          [(if type trk = ''ssa'' then 2 else 1) ..< 8]"
    using handleBlockGroup_ssa [where chunk = chunk and registry = registry
      and inflateSync = inflateSync and trk = trk and p = p and bpayload = bpayload
      and btrack = btrack and bvalue = bvalue, OF assms]
    by blast
  have ty: "type trk = ''ass'' \<or> type trk = ''ssa''"
    using assms(4) by (auto simp: SSA_TYPES_def)
  have kass: "type trk = ''ass'' \<Longrightarrow> keys ev =
     [(''layer'', at_index ?vs 1), (''style'', at_index ?vs 2),
      (''name'', at_index ?vs 3), (''marginL'', at_index ?vs 4),
      (''marginR'', at_index ?vs 5), (''marginV'', at_index ?vs 6),
      (''effect'', at_index ?vs 7)]"
    using ks ssa_keys_ass [of ?vs] by simp
  have kssa: "type trk = ''ssa'' \<Longrightarrow> keys ev =
     [(''style'', at_index ?vs 2),
      (''name'', at_index ?vs 3), (''marginL'', at_index ?vs 4),
      (''marginR'', at_index ?vs 5), (''marginV'', at_index ?vs 6),
      (''effect'', at_index ?vs 7)]"
    using ks ssa_keys_ssa [of ?vs] by simp
  have c1: "map_of (keys ev) ''readOrder'' = None"
    using ty kass kssa by auto
  have c2: "type trk = ''ass'' \<longrightarrow>
                keys ev = map (\<lambda>i. (SSA_KEYS ! i, at_index ?vs i)) [1, 2, 3, 4, 5, 6, 7]"
    using kass by (simp add: SSA_KEYS_def)
  have c3: "type trk = ''ssa'' \<longrightarrow>
                keys ev = map (\<lambda>i. (SSA_KEYS ! i, at_index ?vs i)) [2, 3, 4, 5, 6, 7]
                \<and> map_of (keys ev) ''layer'' = None"
    using kssa by (simp add: SSA_KEYS_def)
  have c4: "map_of (keys ev) ''style'' = Some (String ''Default'')"
    if "arr2text p = ''0,1,Default,,0,0,0,,Hello, world''"
    using ty kass kssa that example_values by (auto simp: at_index_def)
  have c5: "text' ev = ''Hello, world''"
    if "arr2text p = ''0,1,Default,,0,0,0,,Hello, world''"
    using tx that example_values by simp
  have c6: "map (\<lambda>k. map_of (keys ev) k) SSA_KEYS =
                        [None, Some (String ''1''), Some (String ''Default''), Some (String []),
                         Some (String ''0''), Some (String ''0''), Some (String ''0''),
                         Some (String []), None]"
    if "arr2text p = ''0,1,Default,,0,0,0,,Hello, world''" "type trk = ''ass''"
    using kass that example_values by (simp add: at_index_def SSA_KEYS_def)
  have c7: "map (\<lambda>k. map_of (keys ev) k) SSA_KEYS =
                        [None, None, Some (String ''Default''), Some (String []),
                         Some (String ''0''), Some (String ''0''), Some (String ''0''),
                         Some (String []), None]"
    if "arr2text p = ''0,1,Default,,0,0,0,,Hello, world''" "type trk = ''ssa''"
    using kssa that example_values by (simp add: at_index_def SSA_KEYS_def)
  show ?thesis
  proof (intro exI [of _ ev] conjI impI)
  qed (fact r tx c1 c2 [rule_format] c3 [rule_format, THEN conjunct1]
         c3 [rule_format, THEN conjunct2] c4 c5 c6 c7)+
qed

text \<open>The example text on a track of subtype \<open>ssa\<close>.\<close>

theorem handleBlockGroup_ssa_fields_witness:
  "\<exists>ev. handleBlockGroup (map char_of) Some (example_tracks ''ssa'') example_ssa_blockgroup
           (Num 1) (Some (Num 1000)) = Inr (Some (ev, 3))
        \<and> map_of (keys ev) ''layer'' = None
        \<and> map_of (keys ev) ''style'' = Some (String ''Default'')
        \<and> text' ev = ''Hello, world''"
proof -
  let ?p = "map of_char ''0,1,Default,,0,0,0,,Hello, world'' :: nat list"
  have b: "getChild example_ssa_blockgroup Block = Some (EbmlBlock 3 50 ?p)"
    by (simp add: getChild_def example_ssa_blockgroup_def)
  have t: "example_tracks ''ssa'' (Number (Num (of_nat 3))) = Some (example_track ''ssa'')"
    by (simp add: example_tracks_def)
  have p: "(if compressed (example_track ''ssa'') then Some ?p else Some ?p) = Some ?p"
    by simp
  have ty: "type (example_track ''ssa'') \<in> SSA_TYPES"
    by (simp add: example_track_def SSA_TYPES_def)
  have ty2: "type (example_track ''ssa'') = ''ssa''"
    by (simp add: example_track_def)
  have a: "map char_of ?p = ''0,1,Default,,0,0,0,,Hello, world''"
    by code_simp
  note th = handleBlockGroup_ssa_fields [where chunk = example_ssa_blockgroup and btrack = 3
      and bvalue = 50 and bpayload = ?p and registry = "example_tracks ''ssa''"
      and trk = "example_track ''ssa''" and inflateSync = Some and p = ?p
      and arr2text = "map char_of" and scale = "Num 1" and cct = "Some (Num 1000)",
      OF b t p ty]
  from th show ?thesis
  proof (elim exE conjE, goal_cases)
    case (1 ev)
    note ssa = 1(5) [rule_format, OF ty2]
    note ex = 1(6) [rule_format, OF a]
    from 1(1) ssa [THEN conjunct2] ex [THEN conjunct1] ex [THEN conjunct2, THEN conjunct1]
    show ?case
      by (intro exI [of _ ev] conjI)
  qed
qed

section \<open>Properties of the stream synchronizer\<close>

text \<open>
  For a byte from 1 to 255 the computed length is that of the size field it begins:
  one more than the number of its leading zero bits, between 1 and 8.
\<close>

lemma size_tag_length_range:
  assumes "0 < n" and "n < 256"
  shows "\<exists>len. size_tag_length (Some n) = Some (int len) \<and> 1 \<le> len \<and> len \<le> 8
           \<and> 2 ^ (8 - len) \<le> n \<and> n < 2 ^ (9 - len)"
proof -
  let ?f = "floorlog 2 n"
  have b: "2 ^ (?f - 1) \<le> n" "n < 2 ^ ?f"
    using floorlog_bounds [of n 2] assms(1) by simp_all
  have f1: "1 \<le> ?f"
    using assms(1) by (simp add: floorlog_def)
  have "(2::nat) ^ (?f - 1) < 2 ^ 8"
    using b(1) assms(2) by simp
  then have "?f - 1 < 8"
    by (simp only: power_strict_increasing_iff one_less_numeral_iff semiring_norm)
  then have f8: "?f \<le> 8"
    by simp
  have l: "size_tag_length (Some n) = Some (int (9 - ?f))"
    using assms(1) f1 f8 by (simp add: size_tag_length_def)
  have r: "1 \<le> 9 - ?f" "9 - ?f \<le> 8"
    using f1 f8 by arith+
  have e: "8 - (9 - ?f) = ?f - 1" "9 - (9 - ?f) = ?f"
    using f1 f8 by arith+
  have p: "2 ^ (8 - (9 - ?f)) \<le> n" "n < 2 ^ (9 - (9 - ?f))"
    using b by (simp_all only: e)
  show ?thesis
    by (intro exI [of _ "9 - ?f"] conjI) (fact l r p)+
qed

text \<open>The scan as a filter over the examined positions \<open>0 \<le> i < length - 12\<close>.\<close>

lemma scan_loop_filter:
  "scan_loop nm chunk i st parsed =
     (st \<or> (\<exists>j. i \<le> j \<and> int j < int (length chunk) - 12 \<and> is_cluster_marker chunk j
                \<and> is_valid_tag nm (first_tag_byte chunk j)),
      parsed @ map (\<lambda>j. drop j chunk)
        (filter (\<lambda>j. is_cluster_marker chunk j \<and> is_valid_tag nm (first_tag_byte chunk j))
           [i ..< length chunk - 12]))"
proof (induction nm chunk i st parsed rule: scan_loop.induct)
  case (1 nm chunk i st parsed)
  show ?case
  proof (cases "int i < int (length chunk) - 12")
    case False
    then show ?thesis by (subst scan_loop.simps) auto
  next
    case True
    then have u: "[i ..< length chunk - 12] = i # [Suc i ..< length chunk - 12]"
      by (simp add: upt_conv_Cons)
    have ex: "(\<exists>j. i \<le> j \<and> P j) \<longleftrightarrow> P i \<or> (\<exists>j. Suc i \<le> j \<and> P j)" for P
      by (metis Suc_leI le_eq_less_or_eq Suc_leD order_refl)
    show ?thesis
      using True 1
      by (subst scan_loop.simps, subst ex) (auto simp: u)
  qed
qed

lemma parseStream_chunk_unstable:
  "parseStream_chunk nm False chunk =
     ((\<exists>j. int j < int (length chunk) - 12 \<and> is_cluster_marker chunk j
            \<and> is_valid_tag nm (first_tag_byte chunk j)),
      map (\<lambda>j. drop j chunk)
        (filter (\<lambda>j. is_cluster_marker chunk j \<and> is_valid_tag nm (first_tag_byte chunk j))
           [0 ..< length chunk - 12]))"
  by (simp add: parseStream_chunk_def scan_loop_filter)

lemma parseStream_stable: "fst (parseStream nm True chunks) = True"
  by (induction chunks) (auto simp: parseStream_chunk_def split: prod.splits)

lemma is_cluster_marker_length: "is_cluster_marker chunk i \<Longrightarrow> i + 3 < length chunk"
  by (auto simp: is_cluster_marker_def byte_at_def split: if_splits)

lemma no_position_from_filter:
  assumes "filter (\<lambda>i. is_cluster_marker chunk i \<and> Q i) [0 ..< length chunk] = []"
  shows "\<forall>i. is_cluster_marker chunk i \<longrightarrow> \<not> Q i"
proof (intro allI impI)
  fix i assume m: "is_cluster_marker chunk i"
  then have "i \<in> set [0 ..< length chunk]"
    using is_cluster_marker_length [OF m] by simp
  with assms m show "\<not> Q i"
    by (auto simp: filter_empty_conv)
qed

lemma parseStream_chunk_no_match:
  assumes "\<forall>i. is_cluster_marker chunk i \<longrightarrow> \<not> is_valid_tag nm (first_tag_byte chunk i)"
  shows "parseStream_chunk nm False chunk = (False, [])"
proof -
  have "filter (\<lambda>j. is_cluster_marker chunk j \<and> is_valid_tag nm (first_tag_byte chunk j))
           [0 ..< length chunk - 12] = []"
    using assms by (simp add: filter_empty_conv)
  moreover have "\<not> (\<exists>j. int j < int (length chunk) - 12 \<and> is_cluster_marker chunk j
            \<and> is_valid_tag nm (first_tag_byte chunk j))"
    using assms by blast
  ultimately show ?thesis
    by (simp only: parseStream_chunk_unstable list.map)
qed

lemma parseStream_no_match:
  assumes "\<forall>c \<in> set chunks. \<forall>i. is_cluster_marker c i \<longrightarrow> \<not> is_valid_tag nm (first_tag_byte c i)"
  shows "parseStream nm False chunks = (False, map (\<lambda>c. []) chunks)"
  using assms
proof (induction chunks)
  case Nil
  show ?case by simp
next
  case (Cons c chunks)
  then have "parseStream_chunk nm False c = (False, [])"
    by (intro parseStream_chunk_no_match) simp
  moreover have "parseStream nm False chunks = (False, map (\<lambda>c. []) chunks)"
    using Cons by simp
  ultimately show ?case by simp
qed

lemma parseStream_chunk_match:
  assumes r: "parseStream_chunk nm False chunk = (st, parsed)"
  shows "st \<longrightarrow> (\<exists>i. int i < int (length chunk) - 12 \<and> is_cluster_marker chunk i
                    \<and> is_valid_tag nm (first_tag_byte chunk i))"
    and "\<forall>s \<in> set parsed. \<exists>i. s = drop i chunk \<and> int i < int (length chunk) - 12
                    \<and> is_cluster_marker chunk i
                    \<and> is_valid_tag nm (first_tag_byte chunk i)"
proof -
  from r have st: "st = (\<exists>j. int j < int (length chunk) - 12 \<and> is_cluster_marker chunk j
            \<and> is_valid_tag nm (first_tag_byte chunk j))"
    and p: "parsed = map (\<lambda>j. drop j chunk)
        (filter (\<lambda>j. is_cluster_marker chunk j \<and> is_valid_tag nm (first_tag_byte chunk j))
           [0 ..< length chunk - 12])"
    by (simp_all only: parseStream_chunk_unstable prod.inject)
  from st show "st \<longrightarrow> (\<exists>i. int i < int (length chunk) - 12 \<and> is_cluster_marker chunk i
                    \<and> is_valid_tag nm (first_tag_byte chunk i))"
    by simp
  show "\<forall>s \<in> set parsed. \<exists>i. s = drop i chunk \<and> int i < int (length chunk) - 12
                    \<and> is_cluster_marker chunk i
                    \<and> is_valid_tag nm (first_tag_byte chunk i)"
  proof
    fix s assume "s \<in> set parsed"
    with p obtain x where "s = drop x chunk" "x < length chunk - 12" "is_cluster_marker chunk x"
        "is_valid_tag nm (first_tag_byte chunk x)"
      by auto
    moreover from this have "int x < int (length chunk) - 12" by linarith
    ultimately show "\<exists>i. s = drop i chunk \<and> int i < int (length chunk) - 12
                    \<and> is_cluster_marker chunk i
                    \<and> is_valid_tag nm (first_tag_byte chunk i)"
      by blast
  qed
qed

text \<open>
  Claim C2. From the unstable state, a chunk makes the synchronizer stable only if some
  examined position starts with the four-byte cluster marker and the byte after the
  size field, whose length is computed from the byte that follows the marker, is a
  recognised identity code; every slice handed to the decoder starts at such a
  position. If no marker in the chunk passes the check on the following identity, the
  state stays unstable and nothing is decoded: the scan has no error result. The same
  holds along a stream of such chunks.
\<close>

theorem parseStream_double_check:
  "(\<forall>st parsed. parseStream_chunk nm False chunk = (st, parsed) \<longrightarrow>
      (st \<longrightarrow> (\<exists>i. int i < int (length chunk) - 12 \<and> is_cluster_marker chunk i
                    \<and> is_valid_tag nm (first_tag_byte chunk i)))
      \<and> (\<forall>s \<in> set parsed. \<exists>i. s = drop i chunk \<and> int i < int (length chunk) - 12
                    \<and> is_cluster_marker chunk i
                    \<and> is_valid_tag nm (first_tag_byte chunk i)))
   \<and> ((\<forall>i. is_cluster_marker chunk i \<longrightarrow> \<not> is_valid_tag nm (first_tag_byte chunk i))
        \<longrightarrow> parseStream_chunk nm False chunk = (False, []))
   \<and> ((\<forall>c \<in> set chunks. \<forall>i. is_cluster_marker c i \<longrightarrow> \<not> is_valid_tag nm (first_tag_byte c i))
        \<longrightarrow> parseStream nm False chunks = (False, map (\<lambda>c. []) chunks))"
  using parseStream_chunk_match [of nm chunk] parseStream_chunk_no_match [of chunk nm]
    parseStream_no_match [of chunks nm]
  by (intro conjI allI impI) blast+

text \<open>A chunk with the marker inside a payload, at index 2, alone and twice in a stream.\<close>

theorem parseStream_double_check_witness:
  "parseStream_chunk example_tagName False example_payload_chunk = (False, [])
   \<and> is_cluster_marker example_payload_chunk 2
   \<and> parseStream example_tagName False [example_payload_chunk, example_payload_chunk]
       = (False, [[], []])"
proof -
  have "filter (\<lambda>i. is_cluster_marker example_payload_chunk i
                  \<and> is_valid_tag example_tagName (first_tag_byte example_payload_chunk i))
          [0 ..< length example_payload_chunk] = []"
    by code_simp
  then have no: "\<forall>i. is_cluster_marker example_payload_chunk i \<longrightarrow>
                  \<not> is_valid_tag example_tagName (first_tag_byte example_payload_chunk i)"
    by (rule no_position_from_filter)
  have m: "is_cluster_marker example_payload_chunk 2"
    by code_simp
  from no m
    parseStream_double_check [of example_tagName example_payload_chunk
      "[example_payload_chunk, example_payload_chunk]"]
  show ?thesis by simp
qed

text \<open>
  Claim C10. The scan examines only the positions below \<open>chunk.length - 12\<close>: a chunk
  in which every complete cluster marker begins at an index of at least
  \<open>chunk.length - 12\<close> (a marker cut off by the end of the chunk is not complete)
  leaves the synchronizer unstable, and nothing of the chunk is decoded.
\<close>

theorem scan_skips_last_12_bytes:
  assumes "\<forall>i. is_cluster_marker chunk i \<longrightarrow> int (length chunk) - 12 \<le> int i"
  shows "parseStream_chunk nm False chunk = (False, [])"
proof -
  have "filter (\<lambda>j. is_cluster_marker chunk j \<and> is_valid_tag nm (first_tag_byte chunk j))
           [0 ..< length chunk - 12] = []"
    using assms by (fastforce simp: filter_empty_conv)
  moreover have "\<not> (\<exists>j. int j < int (length chunk) - 12 \<and> is_cluster_marker chunk j
            \<and> is_valid_tag nm (first_tag_byte chunk j))"
    using assms by fastforce
  ultimately show ?thesis
    by (simp only: parseStream_chunk_unstable list.map)
qed

text \<open>Sixteen bytes with a well-formed cluster header at index 4.\<close>

theorem scan_skips_last_12_bytes_witness:
  "is_cluster_marker example_late_chunk 4
   \<and> is_valid_tag example_tagName (first_tag_byte example_late_chunk 4)
   \<and> parseStream_chunk example_tagName False example_late_chunk = (False, [])"
proof -
  have "filter (\<lambda>i. is_cluster_marker example_late_chunk i
                  \<and> \<not> int (length example_late_chunk) - 12 \<le> int i)
          [0 ..< length example_late_chunk] = []"
    by code_simp
  then have "\<forall>i. is_cluster_marker example_late_chunk i \<longrightarrow>
                  \<not> \<not> int (length example_late_chunk) - 12 \<le> int i"
    by (rule no_position_from_filter)
  then have h: "\<forall>i. is_cluster_marker example_late_chunk i \<longrightarrow>
                  int (length example_late_chunk) - 12 \<le> int i"
    by simp
  have m: "is_cluster_marker example_late_chunk 4
      \<and> is_valid_tag example_tagName (first_tag_byte example_late_chunk 4)"
    by code_simp
  from m scan_skips_last_12_bytes [OF h, of example_tagName]
  show ?thesis by simp
qed

section \<open>Properties of the chapter resolver\<close>

text \<open>The backward loop builds the list that the recursion from the front describes.\<close>

lemma chapters_loop_eq:
  "k \<le> length atoms \<Longrightarrow>
   chapters_loop atoms k tcs (Inr d) (chapters_of_atoms tcs d (drop k atoms))
     = Inr (chapters_of_atoms tcs d atoms)"
proof (induction k)
  case 0
  show ?case by simp
next
  case (Suc k)
  then have k: "k < length atoms" by simp
  then have d: "drop k atoms = atoms ! k # drop (Suc k) atoms"
    by (simp add: Cons_nth_drop_Suc)
  have "chapters_loop atoms (Suc k) tcs (Inr d) (chapters_of_atoms tcs d (drop (Suc k) atoms))
      = chapters_loop atoms k tcs (Inr d) (chapters_of_atoms tcs d (drop k atoms))"
    by (simp add: d Let_def chapter_entry_def or_else_def)
  with Suc show ?case by simp
qed

lemma chapters_of_atoms_length: "length (chapters_of_atoms tcs d as) = length as"
  by (induction as) simp_all

lemma chapters_of_atoms_start:
  "map start (chapters_of_atoms tcs d as) = map (chapter_start tcs) as"
  by (induction as) (simp_all add: chapter_entry_def)

lemma chapters_of_atoms_nth:
  "i < length as \<Longrightarrow>
   chapters_of_atoms tcs d as ! i =
     chapter_entry tcs d (as ! i)
       (if Suc i < length as then Number (chapter_start tcs (as ! Suc i)) else Undefined)"
proof (induction as arbitrary: i)
  case Nil
  then show ?case by simp
next
  case (Cons a as)
  show ?case
  proof (cases i)
    case 0
    show ?thesis
    proof (cases as)
      case Nil
      with 0 show ?thesis by simp
    next
      case (Cons b bs)
      with 0 show ?thesis by (simp add: chapter_entry_def)
    qed
  next
    case (Suc j)
    with Cons show ?thesis by simp
  qed
qed

lemma resolveChapters_visible:
  assumes "Children ch \<noteq> []" and "defaultEdition ch = Some ed"
  shows "resolveChapters (Some ch) tcs (Inr d) = Inr (chapters_of_atoms tcs d (visible_atoms ed))"
  using assms chapters_loop_eq [of "length (visible_atoms ed)" "visible_atoms ed" tcs d]
  by (simp add: resolveChapters_def)

lemma chapter_end_absent:
  "getData atom ChapterTimeEnd = Undefined \<Longrightarrow> chapter_end tcs atom = NaN"
  by (simp add: chapter_end_def)

lemma example_edition:
  "Children (example_chapters starts) \<noteq> []"
  "defaultEdition (example_chapters starts) = Some (master EditionEntry (map atom_at starts))"
  "visible_atoms (master EditionEntry (map atom_at starts)) = map atom_at starts"
  "getData (atom_at ms) ChapterTimeEnd = Undefined"
  by (simp_all add: example_chapters_def master_def defaultEdition_def visible_atoms_def
        atom_at_def leaf_def getData_def getChild_def)

lemma example_starts:
  "map (chapter_start (Num 1)) (map atom_at [0, 10, 20]) = [Num 0, Num 10, Num 20]"
  by (simp add: chapter_start_def atom_at_def master_def leaf_def getData_def getChild_def)

text \<open>
  Claim C6, as amended. A visible atom without a declared end gets as its end the start
  of the next visible atom when that start is a number other than 0 and NaN; otherwise
  (the last atom, or a next start that is falsy) it gets the container's duration, and
  0 when the duration is unknown or 0. Three atoms that start at 0, 10 and 20 and
  declare no end, with duration 30, get the ends 10, 20 and 30.
\<close>

theorem chapter_end_fallback:
  assumes "Children ch \<noteq> []" and "defaultEdition ch = Some ed"
  shows "(\<exists>cs. resolveChapters (Some ch) tcs (Inr d) = Inr cs
            \<and> length cs = length (visible_atoms ed)
            \<and> (\<forall>i < length cs. getData (visible_atoms ed ! i) ChapterTimeEnd = Undefined \<longrightarrow>
                 end' (cs ! i) =
                   (if Suc i < length cs \<and> num_truthy (start (cs ! Suc i))
                    then Number (start (cs ! Suc i))
                    else if truthy d then d else Number (Num 0))))
       \<and> (\<exists>cs. resolveChapters (Some (example_chapters [0, 10, 20])) (Num 1)
                  (Inr (Number (Num 30))) = Inr cs
              \<and> map start cs = [Num 0, Num 10, Num 20]
              \<and> map end' cs = [Number (Num 10), Number (Num 20), Number (Num 30)])"
proof
  let ?as = "visible_atoms ed"
  let ?cs = "chapters_of_atoms tcs d ?as"
  have r: "resolveChapters (Some ch) tcs (Inr d) = Inr ?cs"
    using assms by (rule resolveChapters_visible)
  have l: "length ?cs = length ?as"
    by (rule chapters_of_atoms_length)
  have e: "end' (?cs ! i) =
             (if Suc i < length ?cs \<and> num_truthy (start (?cs ! Suc i))
              then Number (start (?cs ! Suc i))
              else if truthy d then d else Number (Num 0))"
    if i: "i < length ?cs" and u: "getData (?as ! i) ChapterTimeEnd = Undefined" for i
  proof -
    from i l have i': "i < length ?as" by simp
    have n: "chapter_end tcs (?as ! i) = NaN"
      using u by (rule chapter_end_absent)
    show ?thesis
    proof (cases "Suc i < length ?as")
      case True
      then have "start (?cs ! Suc i) = chapter_start tcs (?as ! Suc i)"
        by (simp add: chapters_of_atoms_nth chapter_entry_def)
      with True i' n l show ?thesis
        by (simp add: chapters_of_atoms_nth chapter_entry_def or_else_def)
    next
      case False
      with i' n l show ?thesis
        by (simp add: chapters_of_atoms_nth chapter_entry_def or_else_def)
    qed
  qed
  from r l e show "\<exists>cs. resolveChapters (Some ch) tcs (Inr d) = Inr cs
            \<and> length cs = length (visible_atoms ed)
            \<and> (\<forall>i < length cs. getData (visible_atoms ed ! i) ChapterTimeEnd = Undefined \<longrightarrow>
                 end' (cs ! i) =
                   (if Suc i < length cs \<and> num_truthy (start (cs ! Suc i))
                    then Number (start (cs ! Suc i))
                    else if truthy d then d else Number (Num 0)))"
    by blast
next
  let ?cs = "chapters_of_atoms (Num 1) (Number (Num 30)) (map atom_at [0, 10, 20])"
  have a: "resolveChapters (Some (example_chapters [0, 10, 20])) (Num 1) (Inr (Number (Num 30)))
      = Inr ?cs"
    using resolveChapters_visible [OF example_edition(1) example_edition(2), of "[0, 10, 20]"]
    by (simp only: example_edition(3))
  have b: "map start ?cs = [Num 0, Num 10, Num 20]"
    by (simp add: chapter_entry_def chapter_start_def atom_at_def master_def leaf_def
          getData_def getChild_def)
  have c: "map end' ?cs = [Number (Num 10), Number (Num 20), Number (Num 30)]"
    by (simp add: chapter_entry_def chapter_start_def chapter_end_def atom_at_def master_def
          leaf_def getData_def getChild_def or_else_def)
  show "\<exists>cs. resolveChapters (Some (example_chapters [0, 10, 20])) (Num 1)
                  (Inr (Number (Num 30))) = Inr cs
              \<and> map start cs = [Num 0, Num 10, Num 20]
              \<and> map end' cs = [Number (Num 10), Number (Num 20), Number (Num 30)]"
    by (rule exI [of _ ?cs]) (simp only: a b c simp_thms)
qed

text \<open>The three atoms of the example: the first entry ends where the second starts.\<close>

theorem chapter_end_fallback_witness:
  "\<exists>cs. resolveChapters (Some (example_chapters [0, 10, 20])) (Num 1) (Inr (Number (Num 30)))
          = Inr cs
        \<and> length cs = 3 \<and> end' (cs ! 0) = Number (start (cs ! 1)) \<and> start (cs ! 1) = Num 10"
proof -
  let ?ed = "master EditionEntry (map atom_at [0, 10, 20])"
  from chapter_end_fallback [OF example_edition(1) example_edition(2), of "[0, 10, 20]"
      "Num 1" "Number (Num 30)", THEN conjunct1]
  obtain cs where r: "resolveChapters (Some (example_chapters [0, 10, 20])) (Num 1)
        (Inr (Number (Num 30))) = Inr cs"
    and l: "length cs = length (visible_atoms ?ed)"
    and e: "\<forall>i < length cs. getData (visible_atoms ?ed ! i) ChapterTimeEnd = Undefined \<longrightarrow>
                 end' (cs ! i) =
                   (if Suc i < length cs \<and> num_truthy (start (cs ! Suc i))
                    then Number (start (cs ! Suc i))
                    else if truthy (Number (Num 30)) then Number (Num 30) else Number (Num 0))"
    by (elim exE conjE)
  have l3: "length cs = 3"
    using l by (simp only: example_edition(3)) simp
  have cs: "cs = chapters_of_atoms (Num 1) (Number (Num 30)) (map atom_at [0, 10, 20])"
    using r resolveChapters_visible [OF example_edition(1) example_edition(2), of "[0, 10, 20]"
      "Num 1" "Number (Num 30)"]
    by (simp only: example_edition(3) sum.inject)
  have "map start cs = [Num 0, Num 10, Num 20]"
    unfolding cs chapters_of_atoms_start by (rule example_starts)
  then have "map start cs ! 1 = Num 10" by simp
  then have s1: "start (cs ! 1) = Num 10"
    using l3 by simp
  have u: "getData (visible_atoms ?ed ! 0) ChapterTimeEnd = Undefined"
    by (simp only: example_edition(3)) (simp add: example_edition(4))
  from e [rule_format, of 0] u l3 s1 have "end' (cs ! 0) = Number (start (cs ! 1))"
    by simp
  with r l3 s1 show ?thesis by (intro exI [of _ cs] conjI)
qed

text \<open>
  Against C6 as stated: of two atoms that start at 5 and at 0, the first does not end
  at the start of the second; the start 0 is falsy and the duration 30 is taken.
\<close>

theorem chapter_end_fallback_counterexample:
  "resolveChapters (Some (example_chapters [5, 0])) (Num 1) (Inr (Number (Num 30))) =
     Inr [\<lparr> start = Num 5, end' = Number (Num 30), text'' = Undefined, language' = Undefined \<rparr>,
          \<lparr> start = Num 0, end' = Number (Num 30), text'' = Undefined, language' = Undefined \<rparr>]
   \<and> getData (atom_at 5) ChapterTimeEnd = Undefined
   \<and> Number (Num 30) \<noteq> Number (Num 0)"
proof -
  have a: "resolveChapters (Some (example_chapters [5, 0])) (Num 1) (Inr (Number (Num 30)))
      = Inr (chapters_of_atoms (Num 1) (Number (Num 30)) (map atom_at [5, 0]))"
    using resolveChapters_visible [OF example_edition(1) example_edition(2), of "[5, 0]"]
    by (simp only: example_edition(3))
  have b: "chapters_of_atoms (Num 1) (Number (Num 30)) (map atom_at [5, 0]) =
     [\<lparr> start = Num 5, end' = Number (Num 30), text'' = Undefined, language' = Undefined \<rparr>,
      \<lparr> start = Num 0, end' = Number (Num 30), text'' = Undefined, language' = Undefined \<rparr>]"
    by (simp add: chapter_entry_def chapter_start_def chapter_end_def atom_at_def master_def
          leaf_def getData_def getData'_def getChild_def or_else_def)
  show ?thesis
    unfolding a b by (simp add: example_edition(4))
qed

text \<open>
  Claim C8, as amended. The entries are returned in the declaration order of the
  visible atoms of the chosen edition, entry \<open>i\<close> with the start of atom \<open>i\<close>;
  nothing sorts them, so the list is ascending by start exactly when the atoms are
  declared in ascending order of start.
\<close>

theorem getChapters_declaration_order:
  assumes "Children ch \<noteq> []" and "defaultEdition ch = Some ed"
  shows "\<exists>cs. resolveChapters (Some ch) tcs (Inr d) = Inr cs
           \<and> map start cs = map (chapter_start tcs) (visible_atoms ed)
           \<and> (spec_ascending (map start cs)
                \<longleftrightarrow> spec_ascending (map (chapter_start tcs) (visible_atoms ed)))"
  using resolveChapters_visible [OF assms, of tcs d]
  by (simp add: chapters_of_atoms_start)

text \<open>Atoms declared in ascending order give an ascending list.\<close>

theorem getChapters_declaration_order_witness:
  "\<exists>cs. resolveChapters (Some (example_chapters [0, 10, 20])) (Num 1) (Inr (Number (Num 30)))
          = Inr cs
        \<and> map start cs = [Num 0, Num 10, Num 20] \<and> spec_ascending (map start cs)"
proof -
  let ?ed = "master EditionEntry (map atom_at [0, 10, 20])"
  from getChapters_declaration_order [OF example_edition(1) example_edition(2),
      of "[0, 10, 20]" "Num 1" "Number (Num 30)"]
  obtain cs where r: "resolveChapters (Some (example_chapters [0, 10, 20])) (Num 1)
        (Inr (Number (Num 30))) = Inr cs"
    and m: "map start cs = map (chapter_start (Num 1)) (visible_atoms ?ed)"
    by (elim exE conjE)
  have m': "map start cs = [Num 0, Num 10, Num 20]"
    using m by (simp only: example_edition(3) example_starts)
  have "spec_ascending [Num 0, Num 10, Num 20]"
    by (simp add: spec_ascending_def)
  with r m' show ?thesis by (intro exI [of _ cs] conjI) simp_all
qed

text \<open>
  Against C8 as stated: atoms declared with the starts 20 and 10 are returned in that
  order, which is not ascending.
\<close>

theorem getChapters_declaration_order_counterexample:
  "resolveChapters (Some (example_chapters [20, 10])) (Num 1) (Inr (Number (Num 30))) =
     Inr [\<lparr> start = Num 20, end' = Number (Num 10), text'' = Undefined, language' = Undefined \<rparr>,
          \<lparr> start = Num 10, end' = Number (Num 30), text'' = Undefined, language' = Undefined \<rparr>]
   \<and> \<not> spec_ascending
         (map start
           [\<lparr> start = Num 20, end' = Number (Num 10), text'' = Undefined, language' = Undefined \<rparr>,
            \<lparr> start = Num 10, end' = Number (Num 30), text'' = Undefined,
              language' = Undefined \<rparr>])"
proof -
  have a: "resolveChapters (Some (example_chapters [20, 10])) (Num 1) (Inr (Number (Num 30)))
      = Inr (chapters_of_atoms (Num 1) (Number (Num 30)) (map atom_at [20, 10]))"
    using resolveChapters_visible [OF example_edition(1) example_edition(2), of "[20, 10]"]
    by (simp only: example_edition(3))
  have b: "chapters_of_atoms (Num 1) (Number (Num 30)) (map atom_at [20, 10]) =
     [\<lparr> start = Num 20, end' = Number (Num 10), text'' = Undefined, language' = Undefined \<rparr>,
      \<lparr> start = Num 10, end' = Number (Num 30), text'' = Undefined, language' = Undefined \<rparr>]"
    by (simp add: chapter_entry_def chapter_start_def chapter_end_def atom_at_def master_def
          leaf_def getData_def getData'_def getChild_def or_else_def)
  show ?thesis
    unfolding a b by (simp add: spec_ascending_def)
qed

section \<open>Properties of the container navigator and the session\<close>

lemma readSeekHeadTag_scan:
  assumes "seekHead s = Some (Inr (Some idx))"
    and "tagCache s (toLowerCase tag) = None"
    and "idx tag = Some (Some entry)"
  shows "readSeekHeadTag s tag =
     (case readUntilTag (file' s NoStart) (EbmlTagId_of tag) of
        Inl e \<Rightarrow> (Inl e, s\<lparr>opened := opened s @ [NoStart]\<rparr>)
      | Inr None \<Rightarrow> (Inr None, s\<lparr>opened := opened s @ [NoStart]\<rparr>)
      | Inr (Some child) \<Rightarrow>
          (Inr (Some (set_absoluteStart child
                  (js_add (segmentStart s) (ToNumber (or_else (data entry) (Number (Num 0))))))),
           s\<lparr>opened := opened s @ [NoStart],
              tagCache := (tagCache s)(toLowerCase tag \<mapsto>
                 set_absoluteStart child
                  (js_add (segmentStart s) (ToNumber (or_else (data entry) (Number (Num 0))))))\<rparr>))"
  using assms
  by (simp add: readSeekHeadTag_def getFileStream_def Let_def split: sum.splits option.splits)

lemma readSeekHeadTag_no_scan:
  assumes "seekHead s = Some (Inr (Some idx))"
    and "tagCache s (toLowerCase tag) \<noteq> None \<or> idx tag = None \<or> idx tag = Some None"
  shows "readSeekHeadTag s tag = (Inr (tagCache s (toLowerCase tag)), s)"
  using assms
  by (auto simp: readSeekHeadTag_def Let_def split: option.splits)

lemma readSeekHeadTag_rejected:
  assumes "seekHead s = None \<or> seekHead s = Some (Inr None) \<or> seekHead s = Some (Inl e)"
  shows "\<exists>e'. readSeekHeadTag s tag = (Inl e', s)"
  using assms
  by (auto simp: readSeekHeadTag_def)

lemma example_getSegment:
  "getSegment (new_session (blob example_file)) =
     (Inr (Some example_segment),
      (new_session (blob example_file))\<lparr>opened := [NoStart], segmentStart := Num 52\<rparr>)"
  by (simp add: getSegment_def getFileStream_def new_session_def blob_def example_file_def
        readUntilTag_def example_segment_def)

lemma example_transformHead:
  "transformHead example_names (Children example_seekhead) Map.empty = Inr example_index"
  by (simp add: example_seekhead_def master_def leaf_def seek_entry_def getChild_def
        readUnsigned_def example_names_def example_index_def)

lemma find_example_seekhead:
  "readUntilTag example_file (Some SeekHead) = Inr (Some example_seekhead)"
  "readUntilTag example_file_no_segment (Some SeekHead) = Inr (Some example_seekhead)"
  by (simp_all add: readUntilTag_def example_file_def example_file_no_segment_def
        example_segment_def example_seekhead_def master_def)

lemma example_index_no_SeekHead: "example_index ''SeekHead'' = None"
  by (simp add: example_index_def)

lemma readSeekHead_single:
  assumes "readUntilTag stream (Some SeekHead) = Inr (Some example_seekhead)"
    and "\<not> destroyed s"
  shows "readSeekHead (Suc fuel) example_names s stream segStart
           = (Some (Inr (Some example_index)), s)"
  using assms
  by (simp add: example_transformHead example_index_no_SeekHead)

lemma example_getSeekHead:
  "getSeekHead (Suc fuel) example_names
     ((new_session (blob example_file))
        \<lparr>opened := [NoStart], segmentStart := Num 52,
         segment := Some (Inr (Some example_segment))\<rparr>)
   = (Some (Inr (Some example_index)),
      (new_session (blob example_file))
        \<lparr>opened := [NoStart, NoStart], segmentStart := Num 52,
         segment := Some (Inr (Some example_segment))\<rparr>)"
proof -
  let ?s1 = "(new_session (blob example_file))
        \<lparr>opened := [NoStart, NoStart], segmentStart := Num 52,
         segment := Some (Inr (Some example_segment))\<rparr>"
  have "getSeekHead (Suc fuel) example_names
     ((new_session (blob example_file))
        \<lparr>opened := [NoStart], segmentStart := Num 52,
         segment := Some (Inr (Some example_segment))\<rparr>)
     = readSeekHead (Suc fuel) example_names ?s1 example_file (Num 0)"
    by (simp add: getSeekHead_def getFileStream_def new_session_def blob_def
          del: readSeekHead.simps)
  also have "\<dots> = (Some (Inr (Some example_index)), ?s1)"
    by (rule readSeekHead_single [OF find_example_seekhead(1)]) (simp add: new_session_def)
  finally show ?thesis .
qed










lemma lower_names:
  "toLowerCase ''Info'' = ''info''" "toLowerCase ''Tracks'' = ''tracks''"
  "toLowerCase ''Chapters'' = ''chapters''" "toLowerCase ''Attachments'' = ''attachments''"
  by (simp_all add: toLowerCase_def lower_char_def)

lemma tag_ids:
  "EbmlTagId_of ''Info'' = Some Info" "EbmlTagId_of ''Tracks'' = Some Tracks"
  "EbmlTagId_of ''Chapters'' = Some Chapters" "EbmlTagId_of ''Attachments'' = Some Attachments"
  by (simp_all add: EbmlTagId_of_def)





lemma example_indexed:
  "(case getSegment (new_session (blob example_file)) of
      (p1, s1) \<Rightarrow>
        (case getSeekHead 1 example_names (s1\<lparr>segment := Some p1\<rparr>) of
           (p2, s2) \<Rightarrow> map_option (\<lambda>p. s2\<lparr>seekHead := Some p\<rparr>) p2))
     = Some (indexed_session example_file)"
  by (simp only: example_getSegment prod.case) (simp add: example_getSeekHead indexed_session_def)

text \<open>
  Claim C4, as amended. For a name that is not cached: if the index holds an entry for
  it, the fetch opens the stream without a start argument, that is at the start of the
  file, and takes the first element of the name's identity; it caches that element and
  records \<open>segmentStart + index[name].data\<close> as its \<open>absoluteStart\<close>. If the index
  has no entry for the name, the fetch opens no stream and returns \<open>undefined\<close>.
\<close>

theorem readSeekHeadTag_fetch:
  assumes "seekHead s = Some (Inr (Some idx))" and "tagCache s (toLowerCase tag) = None"
  shows "(\<forall>entry. idx tag = Some (Some entry) \<longrightarrow>
            opened (snd (readSeekHeadTag s tag)) = opened s @ [NoStart]
            \<and> (\<forall>child. readUntilTag (file' s NoStart) (EbmlTagId_of tag) = Inr (Some child) \<longrightarrow>
                  fst (readSeekHeadTag s tag) =
                    Inr (Some (set_absoluteStart child
                      (js_add (segmentStart s)
                         (ToNumber (or_else (data entry) (Number (Num 0)))))))
                  \<and> tagCache (snd (readSeekHeadTag s tag)) (toLowerCase tag) =
                    Some (set_absoluteStart child
                      (js_add (segmentStart s)
                         (ToNumber (or_else (data entry) (Number (Num 0)))))))
            \<and> (readUntilTag (file' s NoStart) (EbmlTagId_of tag) = Inr None \<longrightarrow>
                  fst (readSeekHeadTag s tag) = Inr None))
       \<and> (idx tag = None \<or> idx tag = Some None \<longrightarrow> readSeekHeadTag s tag = (Inr None, s))"
proof (intro conjI allI impI)
  fix entry assume e: "idx tag = Some (Some entry)"
  note scan = readSeekHeadTag_scan [OF assms e]
  show "opened (snd (readSeekHeadTag s tag)) = opened s @ [NoStart]"
    unfolding scan by (simp split: sum.splits option.splits)
  { fix child
    assume c: "readUntilTag (file' s NoStart) (EbmlTagId_of tag) = Inr (Some child)"
    show "fst (readSeekHeadTag s tag) =
                    Inr (Some (set_absoluteStart child
                      (js_add (segmentStart s)
                         (ToNumber (or_else (data entry) (Number (Num 0)))))))"
      unfolding scan c by simp
    show "tagCache (snd (readSeekHeadTag s tag)) (toLowerCase tag) =
                    Some (set_absoluteStart child
                      (js_add (segmentStart s)
                         (ToNumber (or_else (data entry) (Number (Num 0))))))"
      unfolding scan c by simp }
  { assume c: "readUntilTag (file' s NoStart) (EbmlTagId_of tag) = Inr None"
    show "fst (readSeekHeadTag s tag) = Inr None"
      unfolding scan c by simp }
next
  assume "idx tag = None \<or> idx tag = Some None"
  then show "readSeekHeadTag s tag = (Inr None, s)"
    using readSeekHeadTag_no_scan [OF assms(1), of tag] assms(2) by simp
qed

lemma indexed_session_fields:
  "seekHead (indexed_session elements) = Some (Inr (Some example_index))"
  "tagCache (indexed_session elements) k = None"
  "file' (indexed_session elements) NoStart = elements"
  "opened (indexed_session elements) = [NoStart, NoStart]"
  "segmentStart (indexed_session elements) = Num 52"
  "timecodeScale (indexed_session elements) = Num 1"
  by (simp_all add: indexed_session_def new_session_def blob_def)

lemma example_index_entries:
  "example_index ''Tracks'' = Some (Some (leaf SeekPosition (Number (Num 100))))"
  "example_index ''Attachments'' = Some (Some (leaf SeekPosition (Number (Num 900))))"
  "example_index ''Chapters'' = None"
  by (simp_all add: example_index_def)

lemma example_file_elements:
  "readUntilTag example_file (Some Tracks) = Inr (Some example_tracks_element)"
  "readUntilTag example_file (Some Chapters) = Inr (Some (example_chapters [0, 10, 20]))"
  "readUntilTag example_file (Some Attachments) = Inr None"
  by (simp_all add: readUntilTag_def example_file_def example_segment_def example_seekhead_def
        example_info_def example_tracks_element_def example_chapters_def master_def)

text \<open>The example session after its index has resolved: Tracks is listed and found.\<close>

theorem readSeekHeadTag_fetch_witness:
  "opened (snd (readSeekHeadTag (indexed_session example_file) ''Tracks''))
     = [NoStart, NoStart, NoStart]
   \<and> fst (readSeekHeadTag (indexed_session example_file) ''Tracks'')
     = Inr (Some (set_absoluteStart example_tracks_element (Num 152)))"
proof -
  note th = readSeekHeadTag_fetch [where s = "indexed_session example_file"
      and tag = "''Tracks''" and idx = example_index,
      OF indexed_session_fields(1) indexed_session_fields(2),
      THEN conjunct1, rule_format, OF example_index_entries(1)]
  have f: "readUntilTag (file' (indexed_session example_file) NoStart) (EbmlTagId_of ''Tracks'')
      = Inr (Some example_tracks_element)"
    by (simp only: indexed_session_fields(3) tag_ids example_file_elements)
  from th [THEN conjunct1] th [THEN conjunct2, THEN conjunct1, rule_format, OF f, THEN conjunct1]
  show ?thesis
    by (simp add: indexed_session_fields leaf_def or_else_def)
qed

text \<open>
  Against C4 as stated: with \<open>segmentStart\<close> 52 and Tracks listed at 100 the stream is
  opened without a start argument, not at 152; and Chapters, which the index does not
  list, is not looked for, although the file holds it.
\<close>

theorem readSeekHeadTag_fetch_counterexample:
  "segmentStart (indexed_session example_file) = Num 52
   \<and> example_index ''Tracks'' = Some (Some (leaf SeekPosition (Number (Num 100))))
   \<and> opened (snd (readSeekHeadTag (indexed_session example_file) ''Tracks''))
       = [NoStart, NoStart, NoStart]
   \<and> example_index ''Chapters'' = None
   \<and> readUntilTag example_file (Some Chapters) = Inr (Some (example_chapters [0, 10, 20]))
   \<and> fst (readSeekHeadTag (indexed_session example_file) ''Chapters'') = Inr None
   \<and> opened (snd (readSeekHeadTag (indexed_session example_file) ''Chapters''))
       = [NoStart, NoStart]"
proof -
  have a: "readSeekHeadTag (indexed_session example_file) ''Chapters''
      = (Inr None, indexed_session example_file)"
    using readSeekHeadTag_no_scan [where s = "indexed_session example_file"
        and tag = "''Chapters''", OF indexed_session_fields(1)]
    by (simp add: example_index_entries indexed_session_fields)
  have f: "readUntilTag (file' (indexed_session example_file) NoStart) (EbmlTagId_of ''Tracks'')
      = Inr (Some example_tracks_element)"
    by (simp only: indexed_session_fields(3) tag_ids example_file_elements)
  have b: "opened (snd (readSeekHeadTag (indexed_session example_file) ''Tracks''))
       = [NoStart, NoStart, NoStart]"
    unfolding readSeekHeadTag_scan [OF indexed_session_fields(1) indexed_session_fields(2)
        example_index_entries(1)] f
    by (simp add: indexed_session_fields)
  show ?thesis
    unfolding a b by (simp add: indexed_session_fields example_index_entries example_file_elements)
qed

lemma readSeekHeadTag_second:
  "readSeekHeadTag (snd (readSeekHeadTag s tag)) tag =
     (fst (readSeekHeadTag s tag),
      if scan_unsuccessful s tag
      then (snd (readSeekHeadTag s tag))
             \<lparr>opened := opened (snd (readSeekHeadTag s tag)) @ [NoStart]\<rparr>
      else snd (readSeekHeadTag s tag))"
  by (auto simp: readSeekHeadTag_def scan_unsuccessful_def getFileStream_def Let_def
        split: option.splits sum.splits)

lemma readSeekHeadTag_frame:
  "timecodeScale (snd (readSeekHeadTag s tag)) = timecodeScale s"
  "duration' (snd (readSeekHeadTag s tag)) = duration' s"
  "opened (snd (readSeekHeadTag s tag)) = opened s
     \<or> opened (snd (readSeekHeadTag s tag)) = opened s @ [NoStart]"
  by (auto simp: readSeekHeadTag_def getFileStream_def Let_def
        split: option.splits sum.splits)

lemma getAttachments_state:
  "snd (getAttachments s) = snd (readSeekHeadTag s ''Attachments'')"
  by (simp add: getAttachments_def split: prod.splits sum.splits option.splits)

lemma getAttachments_result:
  "fst (readSeekHeadTag s1 ''Attachments'') = fst (readSeekHeadTag s2 ''Attachments'')
   \<Longrightarrow> fst (getAttachments s1) = fst (getAttachments s2)"
  by (auto simp: getAttachments_def split: prod.splits sum.splits option.splits)

lemma getChapters_state:
  "num_truthy (timecodeScale s) \<Longrightarrow> snd (getChapters s) = snd (readSeekHeadTag s ''Chapters'')"
  using readSeekHeadTag_frame(1) [of s "''Chapters''"]
  by (auto simp: getChapters_def split: prod.splits sum.splits)

lemma getChapters_result:
  "num_truthy (timecodeScale s) \<Longrightarrow>
   fst (getChapters s) =
     (case fst (readSeekHeadTag s ''Chapters'') of
        Inl e \<Rightarrow> Inl e
      | Inr c \<Rightarrow> resolveChapters c (timecodeScale s)
                   (case duration' s of None \<Rightarrow> Inr Undefined | Some p \<Rightarrow> p))"
  using readSeekHeadTag_frame(1,2) [of s "''Chapters''"]
  by (auto simp: getChapters_def split: prod.splits sum.splits)

text \<open>
  Claim C9, as amended. On a constructed session \<open>getTracks\<close> and \<open>getDuration\<close>
  return the memo of the constructor and leave the session as it is. A second call of
  \<open>getAttachments\<close> or \<open>getChapters\<close> returns the result of the first; it opens no
  stream unless the index lists the element and the file does not hold it (or, for
  \<open>getChapters\<close>, the time scale is 0 or NaN, which is scanned for on every call).
\<close>

theorem second_call_memoized:
  "(tracks s = Some p \<longrightarrow> getTracks arr s = (p, s))
   \<and> (duration' s = Some q \<longrightarrow> getDuration s = (q, s))
   \<and> fst (getAttachments (snd (getAttachments s))) = fst (getAttachments s)
   \<and> (\<not> scan_unsuccessful s ''Attachments'' \<longrightarrow>
         snd (getAttachments (snd (getAttachments s))) = snd (getAttachments s)
         \<and> (opened (snd (getAttachments s)) = opened s
              \<or> opened (snd (getAttachments s)) = opened s @ [NoStart]))
   \<and> (num_truthy (timecodeScale s) \<longrightarrow>
         fst (getChapters (snd (getChapters s))) = fst (getChapters s)
         \<and> (\<not> scan_unsuccessful s ''Chapters'' \<longrightarrow>
               snd (getChapters (snd (getChapters s))) = snd (getChapters s)
               \<and> (opened (snd (getChapters s)) = opened s
                    \<or> opened (snd (getChapters s)) = opened s @ [NoStart])))"
proof (intro conjI impI)
  assume "tracks s = Some p"
  then show "getTracks arr s = (p, s)"
    by (simp add: getTracks_def)
next
  assume "duration' s = Some q"
  then show "getDuration s = (q, s)"
    by (simp add: getDuration_def)
next
  show "fst (getAttachments (snd (getAttachments s))) = fst (getAttachments s)"
    by (rule getAttachments_result) (simp add: getAttachments_state readSeekHeadTag_second)
next
  assume "\<not> scan_unsuccessful s ''Attachments''"
  then show "snd (getAttachments (snd (getAttachments s))) = snd (getAttachments s)"
    by (simp add: getAttachments_state readSeekHeadTag_second)
next
  show "opened (snd (getAttachments s)) = opened s
              \<or> opened (snd (getAttachments s)) = opened s @ [NoStart]"
    unfolding getAttachments_state by (rule readSeekHeadTag_frame(3))
next
  assume t: "num_truthy (timecodeScale s)"
  let ?s1 = "snd (readSeekHeadTag s ''Chapters'')"
  have s1: "snd (getChapters s) = ?s1"
    using t by (rule getChapters_state)
  have t1: "num_truthy (timecodeScale ?s1)"
    using t by (simp add: readSeekHeadTag_frame)
  show "fst (getChapters (snd (getChapters s))) = fst (getChapters s)"
    unfolding s1 getChapters_result [OF t] getChapters_result [OF t1]
    by (simp add: readSeekHeadTag_second readSeekHeadTag_frame split: sum.splits)
  { assume "\<not> scan_unsuccessful s ''Chapters''"
    then show "snd (getChapters (snd (getChapters s))) = snd (getChapters s)"
      unfolding s1 getChapters_state [OF t1]
      by (simp add: readSeekHeadTag_second) }
  show "opened (snd (getChapters s)) = opened s
                    \<or> opened (snd (getChapters s)) = opened s @ [NoStart]"
    unfolding s1 by (rule readSeekHeadTag_frame(3))
qed

lemma example_getDuration:
  "getDuration (indexed_session example_file) =
     (Inr (Number (Num 30)),
      (indexed_session example_file)
        \<lparr>opened := [NoStart, NoStart, NoStart],
         tagCache := [''info'' \<mapsto> set_absoluteStart example_info (Num 112)]\<rparr>)"
  by (simp add: getDuration_def readSeekHeadTag_def lower_names tag_ids new_session_def
        indexed_session_def getFileStream_def blob_def example_index_def readUntilTag_def
        example_file_def example_segment_def example_seekhead_def example_info_def
        master_def leaf_def or_else_def getData_def getChild_def Let_def)

lemma example_getTracks:
  "getTracks (map char_of)
     ((indexed_session example_file)
        \<lparr>opened := [NoStart, NoStart, NoStart],
         tagCache := [''info'' \<mapsto> set_absoluteStart example_info (Num 112)],
         duration' := Some (Inr (Number (Num 30)))\<rparr>)
   = (Inr [example_track ''ass''],
      (indexed_session example_file)
        \<lparr>opened := [NoStart, NoStart, NoStart, NoStart],
         tagCache := [''info'' \<mapsto> set_absoluteStart example_info (Num 112),
                      ''tracks'' \<mapsto> set_absoluteStart example_tracks_element (Num 152)],
         subtitleTracks := [(Number (Num 3), example_track ''ass'')],
         duration' := Some (Inr (Number (Num 30)))\<rparr>)"
  by (simp add: getTracks_def readSeekHeadTag_def lower_names tag_ids new_session_def
        indexed_session_def getFileStream_def blob_def example_index_def readUntilTag_def
        example_file_def example_segment_def example_seekhead_def example_info_def
        example_tracks_element_def master_def leaf_def example_track_def
        or_else_def getData_def getChild_def Let_def track_of_entry_def startsWith_def
        toLowerCase_def lower_char_def)

lemma example_construct:
  "construct 1 example_names (map char_of) (blob example_file) = Some example_session"
proof -
  have i: "(new_session (blob example_file))
        \<lparr>opened := [NoStart, NoStart], segmentStart := Num 52,
         segment := Some (Inr (Some example_segment)),
         seekHead := Some (Inr (Some example_index))\<rparr> = indexed_session example_file"
    by (simp add: indexed_session_def)
  show ?thesis
    by (simp only: construct_def example_getSegment prod.case
          example_getSeekHead [of 0, folded One_nat_def] option.case i
          example_getDuration example_getTracks)
       (simp add: example_session_def)
qed

lemma example_session_fields:
  "seekHead example_session = Some (Inr (Some example_index))"
  "tagCache example_session ''attachments'' = None"
  "tagCache example_session ''chapters'' = None"
  "file' example_session NoStart = example_file"
  "opened example_session = [NoStart, NoStart, NoStart, NoStart]"
  "timecodeScale example_session = Num 1"
  "tracks example_session = Some (Inr [example_track ''ass''])"
  "duration' example_session = Some (Inr (Number (Num 30)))"
  by (simp_all add: example_session_def indexed_session_def new_session_def blob_def)

lemma example_scans:
  "scan_unsuccessful example_session ''Attachments''"
  "\<not> scan_unsuccessful example_session ''Chapters''"
  by (simp_all add: scan_unsuccessful_def example_session_fields lower_names tag_ids
        example_index_entries example_file_elements)

text \<open>The example session: the chapters element is not listed, the tracks are memoized.\<close>

theorem second_call_memoized_witness:
  "getTracks (map char_of) example_session = (Inr [example_track ''ass''], example_session)
   \<and> getDuration example_session = (Inr (Number (Num 30)), example_session)
   \<and> snd (getChapters (snd (getChapters example_session))) = snd (getChapters example_session)
   \<and> fst (getChapters (snd (getChapters example_session))) = fst (getChapters example_session)"
proof -
  note th = second_call_memoized [where s = example_session and arr = "map char_of"
      and p = "Inr [example_track ''ass'']" and q = "Inr (Number (Num 30))"]
  have t: "num_truthy (timecodeScale example_session)"
    by (simp add: example_session_fields)
  note ch = th [THEN conjunct2, THEN conjunct2, THEN conjunct2, THEN conjunct2, rule_format, OF t]
  from th [THEN conjunct1, rule_format, OF example_session_fields(7)]
    th [THEN conjunct2, THEN conjunct1, rule_format, OF example_session_fields(8)]
    ch [THEN conjunct2, rule_format, OF example_scans(2), THEN conjunct1]
    ch [THEN conjunct1]
  show ?thesis by (intro conjI)
qed

lemma attachments_twice_unsuccessful:
  assumes "scan_unsuccessful s ''Attachments''"
  shows "attachments_twice s = opened s @ [NoStart, NoStart]"
proof -
  have "opened (snd (readSeekHeadTag s ''Attachments'')) = opened s @ [NoStart]"
    using assms
    by (auto simp: readSeekHeadTag_def scan_unsuccessful_def getFileStream_def Let_def
          split: option.splits sum.splits)
  with assms show ?thesis
    by (simp add: attachments_twice_def getAttachments_state readSeekHeadTag_second)
qed

text \<open>
  Against C9 as stated: the index lists Attachments and the file holds none, so each of
  two calls of \<open>getAttachments\<close> scans the file.
\<close>

theorem second_call_memoized_counterexample:
  "construct 1 example_names (map char_of) (blob example_file) = Some example_session
   \<and> opened example_session = [NoStart, NoStart, NoStart, NoStart]
   \<and> attachments_twice example_session
       = [NoStart, NoStart, NoStart, NoStart, NoStart, NoStart]"
proof (intro conjI)
  show "construct 1 example_names (map char_of) (blob example_file) = Some example_session"
    by (rule example_construct)
  show "opened example_session = [NoStart, NoStart, NoStart, NoStart]"
    by (rule example_session_fields)
  show "attachments_twice example_session
       = [NoStart, NoStart, NoStart, NoStart, NoStart, NoStart]"
    using attachments_twice_unsuccessful [OF example_scans(1)]
    by (simp add: example_session_fields)
qed

lemma readSeekHead_first_wins:
  assumes "readSeekHead fuel nm s stream segStart = (Some (Inr (Some idx)), s1)"
    and "readUntilTag stream (Some SeekHead) = Inr (Some sh)"
    and "transformHead nm (Children sh) Map.empty = Inr th"
  shows "\<forall>k \<in> dom th. idx k = th k"
proof (cases fuel)
  case 0
  with assms(1) show ?thesis by simp
next
  case (Suc n)
  show ?thesis
  proof (cases "th ''SeekHead''")
    case None
    with assms Suc show ?thesis
      by (auto split: if_splits)
  next
    case (Some v)
    show ?thesis
    proof (cases v)
      case None
      with Some assms Suc show ?thesis
        by (auto split: if_splits)
    next
      case (Some pos)
      with \<open>th ''SeekHead'' = Some v\<close> assms Suc
      have "(\<exists>second. idx = second ++ th) \<or> idx = th"
        by (auto split: if_splits prod.splits option.splits sum.splits)
      then show ?thesis
        by (auto simp: map_add_dom_app_simps)
    qed
  qed
qed

lemma readSeekHead_whole_file_again:
  assumes "\<forall>st. file' s st = elements"
    and "\<not> destroyed s"
    and "readUntilTag elements (Some SeekHead) = Inr (Some sh)"
    and "transformHead nm (Children sh) Map.empty = Inr th"
    and "th ''SeekHead'' = Some (Some pos)"
  shows "fst (readSeekHead fuel nm s elements segStart) = None"
  using assms(1,2)
proof (induction fuel arbitrary: s)
  case 0
  show ?case by simp
next
  case (Suc fuel)
  let ?s2 = "s\<lparr>opened := opened s @ [TagPlusNum pos segStart]\<rparr>"
  have "fst (readSeekHead fuel nm ?s2 elements segStart) = None"
    by (rule Suc.IH) (use Suc.prems in simp_all)
  then obtain s3 where "readSeekHead fuel nm ?s2 elements segStart = (None, s3)"
    by (cases "readSeekHead fuel nm ?s2 elements segStart") simp
  then show ?case
    using Suc.prems assms(3-5) by (simp add: getFileStream_def)
qed

lemma chained_first_head:
  "readUntilTag chained_file (Some SeekHead) = Inr (Some chained_first)"
  "transformHead example_names (Children chained_first) Map.empty =
     Inr [''SeekHead'' \<mapsto> Some (leaf SeekPosition (Number (Num 500))),
          ''Tracks'' \<mapsto> Some (leaf SeekPosition (Number (Num 100)))]"
  by (simp_all add: readUntilTag_def chained_file_def chained_first_def example_segment_def
        master_def leaf_def seek_entry_def getChild_def readUnsigned_def example_names_def)

text \<open>
  Claim C3, at a container whose first index references a second one, read from a
  \<open>Blob\<close>: the stream for the second index is opened with the sum of the position
  element and a number, which opens the whole file again; the first index is read
  again, and so on. Whatever the depth allowed, the index does not resolve and the
  construction does not complete.
\<close>

theorem chained_index_never_resolves:
  "construct fuel example_names arr (blob chained_file) = None"
proof -
  let ?s0 = "new_session (blob chained_file)"
  have g: "getSegment ?s0 =
     (Inr (Some example_segment), ?s0\<lparr>opened := [NoStart], segmentStart := Num 52\<rparr>)"
    by (simp add: getSegment_def getFileStream_def new_session_def blob_def chained_file_def
          readUntilTag_def example_segment_def)
  let ?s1 = "?s0\<lparr>opened := [NoStart, NoStart], segmentStart := Num 52,
                 segment := Some (Inr (Some example_segment))\<rparr>"
  have "fst (readSeekHead fuel example_names ?s1 chained_file (Num 0)) = None"
  proof (rule readSeekHead_whole_file_again [OF _ _ chained_first_head])
    show "\<forall>st. file' ?s1 st = chained_file"
      by (simp add: new_session_def blob_def split: jsstart.splits)
    show "\<not> destroyed ?s1"
      by (simp add: new_session_def)
    show "[''SeekHead'' \<mapsto> Some (leaf SeekPosition (Number (Num 500))),
          ''Tracks'' \<mapsto> Some (leaf SeekPosition (Number (Num 100)))] ''SeekHead''
        = Some (Some (leaf SeekPosition (Number (Num 500))))"
      by simp
  qed
  then have h: "fst (getSeekHead fuel example_names
       (?s0\<lparr>opened := [NoStart], segmentStart := Num 52,
            segment := Some (Inr (Some example_segment))\<rparr>)) = None"
    by (simp add: getSeekHead_def getFileStream_def new_session_def blob_def
          del: readSeekHead.simps)
  then obtain s2 where h2: "getSeekHead fuel example_names
       (?s0\<lparr>opened := [NoStart], segmentStart := Num 52,
            segment := Some (Inr (Some example_segment))\<rparr>) = (None, s2)"
    by (cases "getSeekHead fuel example_names
       (?s0\<lparr>opened := [NoStart], segmentStart := Num 52,
            segment := Some (Inr (Some example_segment))\<rparr>)") simp
  show ?thesis
    by (simp only: construct_def g prod.case h2 option.case)
qed

end
